theory Spec2Isabelle
  imports Complex_Main "HOL-Library.Sublist"
begin

section \<open>Copy-trade fan-out: execute-copy-trade/route.ts\<close>

text \<open>
  The route handler \<^verbatim>\<open>POST\<close> reads a JSON body, validates it, takes the database from
  lib/db.ts, selects followers, and loops over what the selection gave it: per element it
  consults \<^verbatim>\<open>copied_trade_history\<close>, scales the quantity, calls \<^verbatim>\<open>pushOrderToAccount\<close> and
  records the outcome.

  Modelling decisions.
  \<^item> Body fields carry values of the types the handler uses them at: text fields are
    \<open>string option\<close>, numeric fields \<open>rat option\<close>; \<open>None\<close> is an absent field.
    JavaScript truthiness is written out: an absent field, the empty string and the
    number 0 are falsy.
  \<^item> A numeric field holds the finite double that \<^verbatim>\<open>req.json()\<close> read, as the rational it
    is equal to.
  \<^item> Strings are ASCII; \<^verbatim>\<open>toUpperCase\<close> maps a..z to A..Z.
  \<^item> lib/db.ts exports a \<^verbatim>\<open>mysql2/promise\<close> pool and \<^verbatim>\<open>getDatabase\<close> returns that pool
    unconditionally: the \<^verbatim>\<open>!db\<close> branch never runs, and \<^verbatim>\<open>db.query\<close> resolves to the
    two-element array \<^verbatim>\<open>[rows, fields]\<close>. The handler takes no element out of that array:
    the array itself is its follower list, and the array itself is \<^verbatim>\<open>existingCopy\<close>.
  \<^item> The database is an in-memory store (two tables and a log of the queries issued).
    The lookups and the inserts of the loop succeed.
  \<^item> The follower selection and \<^verbatim>\<open>pushOrderToAccount\<close> are external. The first is a
    function from the selector to the rows found, or to the message of the error the
    server refuses the query with (which the outer \<^verbatim>\<open>catch\<close> answers with status 500); the
    second a function from the number of broker calls made so far and the call's
    arguments to its outcome (a thrown error, or the parsed response).
\<close>

subsection \<open>Request, follower rows, broker interface\<close>

record request =
  masterId :: "string option"
  followerId :: "string option"
  listenerFollowers :: "string list option"
  symbol :: "string option"
  side :: "string option"
  masterQty :: "rat option"
  price :: "rat option"
  productType :: "string option"
  orderType :: "string option"
  tradeId :: "string option"

text \<open>\<^verbatim>\<open>!x\<close> for a text field and for a numeric field.\<close>

fun truthy_str :: "string option \<Rightarrow> bool" where
  "truthy_str None = False"
| "truthy_str (Some s) = (s \<noteq> [])"

fun truthy_num :: "rat option \<Rightarrow> bool" where
  "truthy_num None = False"
| "truthy_num (Some n) = (n \<noteq> 0)"

text \<open>\<^verbatim>\<open>x || d\<close> on the two kinds of value.\<close>

definition or_str :: "string option \<Rightarrow> string \<Rightarrow> string" where
  "or_str x d = (if truthy_str x then the x else d)"

definition or_num :: "rat option \<Rightarrow> rat \<Rightarrow> rat" where
  "or_num x d = (if truthy_num x then the x else d)"

text \<open>Destructuring default \<^verbatim>\<open>x = d\<close>: applies only when the field is absent.\<close>

definition default_str :: "string option \<Rightarrow> string \<Rightarrow> string" where
  "default_str x d = (case x of None \<Rightarrow> d | Some s \<Rightarrow> s)"

text \<open>A value inside a template literal: \<^verbatim>\<open>undefined\<close> prints as that word.\<close>

definition template_text :: "string option \<Rightarrow> string" where
  "template_text x = (case x of None \<Rightarrow> ''undefined'' | Some s \<Rightarrow> s)"

definition upper_char :: "char \<Rightarrow> char" where
  "upper_char c =
     (let n = (of_char c :: nat)
      in if 97 \<le> n \<and> n \<le> 122 then char_of (n - 32) else c)"

definition toUpperCase :: "string \<Rightarrow> string" where
  "toUpperCase s = map upper_char s"

text \<open>A row of the follower selection (followers joined with follower_credentials).\<close>

record follower =
  f_id :: string
  follower_name :: string
  client_id :: string
  api_key :: string
  lot_multiplier :: "rat option"
  max_order_quantity :: "rat option"
  copy_trading_enabled :: bool

datatype selector = ById string | ByIds "string list" | AllActive

text \<open>
  What \<^verbatim>\<open>await db.query(...)\<close> is: the array \<^verbatim>\<open>[rows, fields]\<close> of the pool. Each of its two
  elements is an array again, the rows found and the descriptions of the selected
  columns (their names here).
\<close>

datatype 'r packet = RowsPart "'r list" | FieldsPart "string list"

definition query_result :: "'r list \<Rightarrow> string list \<Rightarrow> 'r packet list" where
  "query_result rows columns = [RowsPart rows, FieldsPart columns]"

text \<open>
  A property read on an element of that array, as in \<^verbatim>\<open>follower.id\<close>. The element is an
  array; of the names the handler reads (id, follower_name, client_id, api_key,
  lot_multiplier, max_order_quantity) an array has none, so the read is \<^verbatim>\<open>undefined\<close>
  whatever the rows hold.
\<close>

definition packet_text :: "'r packet \<Rightarrow> string \<Rightarrow> string option" where
  "packet_text p name = None"

definition packet_number :: "'r packet \<Rightarrow> string \<Rightarrow> rat option" where
  "packet_number p name = None"

definition follower_columns :: "string list" where
  "follower_columns =
     [''id'', ''follower_name'', ''client_id'', ''api_key'', ''lot_multiplier'',
      ''max_order_quantity'', ''copy_trading_enabled'']"

record order_args =
  o_accountId :: string
  o_symbol :: string
  o_side :: string
  o_quantity :: rat
  o_price :: rat
  o_productType :: string
  o_orderType :: string
  o_apiKey :: "string option"
  o_clientId :: "string option"

text \<open>The fields of the broker's parsed response that the handler reads.\<close>

record order_response =
  r_ok :: bool
  r_order_id :: "string option"
  r_error :: "string option"

text \<open>
  \<open>Returns None\<close> is a response that parsed to \<^verbatim>\<open>null\<close>, on which \<^verbatim>\<open>orderResponse?.ok\<close> is
  undefined.
\<close>

datatype broker_outcome = Throws string | Returns "order_response option"

type_synonym broker = "nat \<Rightarrow> order_args \<Rightarrow> broker_outcome"

subsection \<open>The store\<close>

text \<open>A follower id that is \<open>None\<close> is an \<^verbatim>\<open>undefined\<close> parameter, which the pool binds as NULL.\<close>

record history_row =
  h_master_trade_id :: string
  h_follower_id :: "string option"
  h_symbol :: string
  h_side :: string
  h_master_qty :: rat
  h_follower_qty :: rat
  h_price :: rat

record copy_trade_row =
  ct_id :: string
  ct_master_id :: string
  ct_follower_id :: "string option"
  ct_symbol :: string
  ct_side :: string
  ct_master_qty :: rat
  ct_follower_qty :: rat
  ct_price :: rat
  ct_status :: string
  ct_reason :: "string option"

datatype db_query =
    SelectFollowers selector
  | SelectHistory string "string option"
  | InsertHistory string "string option"
  | InsertCopyTrade string string

record world =
  copied_trade_history :: "history_row list"
  copy_trades :: "copy_trade_row list"
  db_log :: "db_query list"
  broker_calls :: "(string option \<times> order_args) list"

definition log_query :: "db_query \<Rightarrow> world \<Rightarrow> world" where
  "log_query q w = w\<lparr>db_log := db_log w @ [q]\<rparr>"

text \<open>
  \<^verbatim>\<open>SELECT id FROM copied_trade_history WHERE master_trade_id = ? AND follower_id = ?\<close>
  as the pool resolves it. The rows are those of the trade and the follower; a NULL
  follower id equals none.
\<close>

definition existingCopy :: "string \<Rightarrow> string option \<Rightarrow> world \<Rightarrow> history_row packet list" where
  "existingCopy t f w =
     query_result
       (filter (\<lambda>r. h_master_trade_id r = t \<and> f \<noteq> None \<and> h_follower_id r = f)
          (copied_trade_history w))
       [''id'']"

definition insert_history :: "history_row \<Rightarrow> world \<Rightarrow> world" where
  "insert_history r w =
     log_query (InsertHistory (h_master_trade_id r) (h_follower_id r))
       (w\<lparr>copied_trade_history := copied_trade_history w @ [r]\<rparr>)"

definition insert_copy_trade :: "copy_trade_row \<Rightarrow> world \<Rightarrow> world" where
  "insert_copy_trade r w =
     log_query (InsertCopyTrade (ct_id r) (ct_status r))
       (w\<lparr>copy_trades := copy_trades w @ [r]\<rparr>)"

subsection \<open>Results and responses\<close>

record result_entry =
  e_followerId :: "string option"
  e_followerName :: "string option"
  e_status :: string
  e_reason :: "string option"
  e_followerQty :: "rat option"
  e_orderId :: "string option"

record summary =
  successCount :: nat
  failedCount :: nat
  skippedDuplicateCount :: nat
  totalFollowers :: nat

record ok_body =
  b_copyTradeId :: string
  b_masterTradeId :: string
  b_message :: string
  b_results :: "result_entry list"
  b_summary :: summary

text \<open>
  \<open>Rejected status message\<close> is \<^verbatim>\<open>{ ok: false, message }\<close> with that HTTP status;
  \<open>Executed body\<close> is the \<^verbatim>\<open>{ ok: true, ... }\<close> response (HTTP 200).
\<close>

datatype response = Rejected nat string | Executed ok_body

fun show_nat :: "nat \<Rightarrow> string" where
  "show_nat n =
     (if n < 10 then [char_of (48 + n)]
      else show_nat (n div 10) @ [char_of (48 + n mod 10)])"

declare show_nat.simps [simp del]

subsection \<open>The loop body\<close>

record loop_state =
  results :: "result_entry list"
  n_success :: nat
  n_skipped :: nat
  n_failed :: nat

text \<open>The values fixed before the loop starts.\<close>

record ctx =
  c_copyTradeId :: string
  c_masterId :: string
  c_tradeId :: string
  c_symbol :: string
  c_side :: string
  c_masterQty :: rat
  c_price :: rat
  c_productType :: string
  c_orderType :: string

text \<open>
  Lines 142-148: the scaled quantity, with the \<^verbatim>\<open>||\<close> defaults and the cap. Both reads
  are \<^verbatim>\<open>undefined\<close> on a packet, so the multiplier is 1 and the cap 1000, and the product
  is masterQty times 1.
\<close>

definition followerQty_of :: "rat \<Rightarrow> follower packet \<Rightarrow> rat" where
  "followerQty_of mq follower =
     (let lotMultiplier = or_num (packet_number follower ''lot_multiplier'') 1;
          maxQty = or_num (packet_number follower ''max_order_quantity'') 1000;
          followerQty = of_int \<lfloor>mq * lotMultiplier\<rfloor>
      in if followerQty > maxQty then maxQty else followerQty)"

definition skipped_entry :: "follower packet \<Rightarrow> string \<Rightarrow> result_entry" where
  "skipped_entry follower why =
     \<lparr>e_followerId = packet_text follower ''id'',
      e_followerName = packet_text follower ''follower_name'', e_status = ''SKIPPED'',
      e_reason = Some why, e_followerQty = None, e_orderId = None\<rparr>"

definition failed_entry :: "follower packet \<Rightarrow> string \<Rightarrow> result_entry" where
  "failed_entry follower why =
     \<lparr>e_followerId = packet_text follower ''id'',
      e_followerName = packet_text follower ''follower_name'', e_status = ''FAILED'',
      e_reason = Some why, e_followerQty = None, e_orderId = None\<rparr>"

definition success_entry :: "follower packet \<Rightarrow> rat \<Rightarrow> string option \<Rightarrow> result_entry" where
  "success_entry follower q oid =
     \<lparr>e_followerId = packet_text follower ''id'',
      e_followerName = packet_text follower ''follower_name'', e_status = ''SUCCESS'',
      e_reason = None, e_followerQty = Some q, e_orderId = oid\<rparr>"

definition failed_row :: "ctx \<Rightarrow> follower packet \<Rightarrow> string \<Rightarrow> copy_trade_row" where
  "failed_row c follower why =
     \<lparr>ct_id = c_copyTradeId c @ ''_'' @ template_text (packet_text follower ''id''),
      ct_master_id = c_masterId c,
      ct_follower_id = packet_text follower ''id'', ct_symbol = toUpperCase (c_symbol c),
      ct_side = toUpperCase (c_side c), ct_master_qty = c_masterQty c,
      ct_follower_qty = 0, ct_price = c_price c, ct_status = ''FAILED'',
      ct_reason = Some why\<rparr>"

definition success_row :: "ctx \<Rightarrow> follower packet \<Rightarrow> rat \<Rightarrow> copy_trade_row" where
  "success_row c follower q =
     \<lparr>ct_id = c_copyTradeId c @ ''_'' @ template_text (packet_text follower ''id''),
      ct_master_id = c_masterId c,
      ct_follower_id = packet_text follower ''id'', ct_symbol = toUpperCase (c_symbol c),
      ct_side = toUpperCase (c_side c), ct_master_qty = c_masterQty c,
      ct_follower_qty = q, ct_price = c_price c, ct_status = ''SUCCESS'',
      ct_reason = None\<rparr>"

definition history_of :: "ctx \<Rightarrow> follower packet \<Rightarrow> rat \<Rightarrow> history_row" where
  "history_of c follower q =
     \<lparr>h_master_trade_id = c_tradeId c, h_follower_id = packet_text follower ''id'',
      h_symbol = toUpperCase (c_symbol c), h_side = toUpperCase (c_side c),
      h_master_qty = c_masterQty c, h_follower_qty = q, h_price = c_price c\<rparr>"

definition order_for :: "ctx \<Rightarrow> follower packet \<Rightarrow> rat \<Rightarrow> order_args" where
  "order_for c follower q =
     \<lparr>o_accountId = c_symbol c, o_symbol = c_symbol c, o_side = toUpperCase (c_side c),
      o_quantity = q, o_price = c_price c, o_productType = c_productType c,
      o_orderType = c_orderType c, o_apiKey = packet_text follower ''api_key'',
      o_clientId = packet_text follower ''client_id''\<rparr>"

text \<open>\<^verbatim>\<open>orderResponse?.ok || orderResponse?.order_id\<close>\<close>

fun accepted :: "order_response option \<Rightarrow> bool" where
  "accepted None = False"
| "accepted (Some r) = (r_ok r \<or> truthy_str (r_order_id r))"

text \<open>\<^verbatim>\<open>orderResponse?.error || 'Failed to push order'\<close>\<close>

fun failure_reason :: "order_response option \<Rightarrow> string" where
  "failure_reason None = ''Failed to push order''"
| "failure_reason (Some r) = or_str (r_error r) ''Failed to push order''"

fun order_id_of :: "order_response option \<Rightarrow> string option" where
  "order_id_of None = None"
| "order_id_of (Some r) = r_order_id r"

definition push_result :: "result_entry \<Rightarrow> loop_state \<Rightarrow> loop_state" where
  "push_result e st = st\<lparr>results := results st @ [e]\<rparr>"

text \<open>
  One iteration of \<^verbatim>\<open>for (const follower of followers)\<close>, lines 121-269; \<open>follower\<close> is an
  element of the array the selection resolved to. The test of line 128 is
  \<^verbatim>\<open>existingCopy && existingCopy.length > 0\<close> on the array the lookup resolved to. The broker
  call is logged with the follower id before its outcome is inspected.
\<close>

definition copy_to_follower ::
  "broker \<Rightarrow> ctx \<Rightarrow> follower packet \<Rightarrow> world \<times> loop_state \<Rightarrow> world \<times> loop_state" where
  "copy_to_follower br c follower ws =
     (let w0 = fst ws; st = snd ws;
          w1 = log_query (SelectHistory (c_tradeId c) (packet_text follower ''id'')) w0
      in if length (existingCopy (c_tradeId c) (packet_text follower ''id'') w1) > 0 then
           (w1, (push_result
                  (skipped_entry follower
                     ''Trade already copied to this follower (duplicate prevention)'')
                  st)\<lparr>n_skipped := Suc (n_skipped st)\<rparr>)
         else
           let followerQty = followerQty_of (c_masterQty c) follower in
           if followerQty = 0 then
             (w1, (push_result (skipped_entry follower ''Quantity too small after multiplier'') st)
                    \<lparr>n_skipped := Suc (n_skipped st)\<rparr>)
           else
             let args = order_for c follower followerQty;
                 w2 = w1\<lparr>broker_calls :=
                         broker_calls w1 @ [(packet_text follower ''id'', args)]\<rparr>
             in case br (length (broker_calls w1)) args of
                  Throws msg \<Rightarrow>
                    (insert_copy_trade (failed_row c follower msg) w2,
                     (push_result (failed_entry follower msg) st)
                       \<lparr>n_failed := Suc (n_failed st)\<rparr>)
                | Returns resp \<Rightarrow>
                    if accepted resp then
                      (insert_copy_trade (success_row c follower followerQty)
                         (insert_history (history_of c follower followerQty) w2),
                       (push_result (success_entry follower followerQty (order_id_of resp)) st)
                         \<lparr>n_success := Suc (n_success st)\<rparr>)
                    else
                      (insert_copy_trade (failed_row c follower (failure_reason resp)) w2,
                       (push_result (failed_entry follower (failure_reason resp)) st)
                         \<lparr>n_failed := Suc (n_failed st)\<rparr>))"

fun process_followers ::
  "broker \<Rightarrow> ctx \<Rightarrow> follower packet list \<Rightarrow> world \<times> loop_state \<Rightarrow> world \<times> loop_state" where
  "process_followers br c [] ws = ws"
| "process_followers br c (f # fs) ws = process_followers br c fs (copy_to_follower br c f ws)"

subsection \<open>The handler\<close>

text \<open>\<^verbatim>\<open>results = []\<close> and the three counters at 0, lines 112-117.\<close>

definition initial_state :: loop_state where
  "initial_state = \<lparr>results = [], n_success = 0, n_skipped = 0, n_failed = 0\<rparr>"

definition select_for :: "request \<Rightarrow> selector" where
  "select_for req =
     (if truthy_str (followerId req) then ById (the (followerId req))
      else case listenerFollowers req of
             Some ids \<Rightarrow> ByIds ids
           | None \<Rightarrow> AllActive)"

definition ctx_of :: "string \<Rightarrow> request \<Rightarrow> ctx" where
  "ctx_of cid req =
     \<lparr>c_copyTradeId = cid,
      c_masterId = default_str (masterId req) ''master_account'',
      c_tradeId = the (tradeId req),
      c_symbol = the (symbol req),
      c_side = the (side req),
      c_masterQty = the (masterQty req),
      c_price = the (price req),
      c_productType = default_str (productType req) ''MIS'',
      c_orderType = default_str (orderType req) ''REGULAR''\<rparr>"

definition executed_message :: "loop_state \<Rightarrow> string" where
  "executed_message st =
     ''Copy trade executed: '' @ show_nat (n_success st) @ '' successful, ''
       @ show_nat (n_skipped st) @ '' skipped (already copied), ''
       @ show_nat (n_failed st) @ '' failed''"

text \<open>
  \<open>dir\<close> gives what each of the three selections finds; \<open>followers\<close> is
  \<^verbatim>\<open>result || []\<close>, the array the selection resolved to. \<open>cid\<close> is the copy-trade
  identifier of line 113, drawn from the clock and the random generator.
\<close>

definition POST ::
  "(selector \<Rightarrow> string + follower list) \<Rightarrow> broker \<Rightarrow> string \<Rightarrow> request \<Rightarrow> world \<Rightarrow> response \<times> world" where
  "POST dir br cid req w =
     (if \<not> truthy_str (symbol req) \<or> \<not> truthy_str (side req)
         \<or> \<not> truthy_num (masterQty req) \<or> \<not> truthy_num (price req) then
        (Rejected 400 ''Missing required trade fields: symbol, side, masterQty, price'', w)
      else if \<not> truthy_str (tradeId req) then
        (Rejected 400 ''Missing tradeId - required to prevent duplicate copies'', w)
      else
        let sel = select_for req;
            w1 = log_query (SelectFollowers sel) w
        in case dir sel of
             Inl msg \<Rightarrow> (Rejected 500 msg, w1)
           | Inr rows \<Rightarrow>
               let followers = query_result rows follower_columns
               in if length followers = 0 then
                    (Rejected 400 ''No active followers found for copy trading'', w1)
                  else
                    let c = ctx_of cid req;
                        fin = process_followers br c followers (w1, initial_state);
                        st = snd fin
                    in (Executed
                          \<lparr>b_copyTradeId = cid, b_masterTradeId = c_tradeId c,
                           b_message = executed_message st, b_results = results st,
                           b_summary =
                             \<lparr>successCount = n_success st, failedCount = n_failed st,
                              skippedDuplicateCount = n_skipped st,
                              totalFollowers = length followers\<rparr>\<rparr>,
                        fst fin))"

subsection \<open>Vocabulary for the statements about the fan-out\<close>

text \<open>The requests that pass the two checks of lines 27-39.\<close>

definition valid_request :: "request \<Rightarrow> bool" where
  "valid_request req =
     (truthy_str (symbol req) \<and> truthy_str (side req) \<and> truthy_num (masterQty req)
      \<and> truthy_num (price req) \<and> truthy_str (tradeId req))"

text \<open>The reason string of line 134.\<close>

definition duplicate_reason :: string where
  "duplicate_reason = ''Trade already copied to this follower (duplicate prevention)''"

definition response_results :: "response \<Rightarrow> result_entry list" where
  "response_results r = (case r of Rejected _ _ \<Rightarrow> [] | Executed b \<Rightarrow> b_results b)"


text \<open>
  The result entry of every iteration that reaches line 130: no follower id, no
  follower name, SKIPPED, the duplicate reason.
\<close>

definition skipped_unnamed :: result_entry where
  "skipped_unnamed =
     \<lparr>e_followerId = None, e_followerName = None, e_status = ''SKIPPED'',
      e_reason = Some duplicate_reason, e_followerQty = None, e_orderId = None\<rparr>"

subsection \<open>Sample followers, requests and brokers\<close>

definition ex_world :: world where
  "ex_world = \<lparr>copied_trade_history = [], copy_trades = [], db_log = [], broker_calls = []\<rparr>"

definition ex_follower :: follower where
  "ex_follower = \<lparr>f_id = ''F1'', follower_name = ''Follower One'', client_id = ''2587092'',
     api_key = ''KEY1'', lot_multiplier = Some (1 / 2), max_order_quantity = Some 100,
     copy_trading_enabled = True\<rparr>"

definition ex_second :: follower where
  "ex_second = \<lparr>f_id = ''F2'', follower_name = ''Follower Two'', client_id = ''2587093'',
     api_key = ''KEY2'', lot_multiplier = Some 2, max_order_quantity = Some 15,
     copy_trading_enabled = True\<rparr>"

definition ex_tenth :: follower where
  "ex_tenth = \<lparr>f_id = ''F3'', follower_name = ''Follower Three'', client_id = ''2587094'',
     api_key = ''KEY3'', lot_multiplier = Some (1 / 10), max_order_quantity = Some 100,
     copy_trading_enabled = True\<rparr>"

definition ex_dir_one :: "selector \<Rightarrow> string + follower list" where
  "ex_dir_one sel = Inr [ex_follower]"

definition ex_dir_two :: "selector \<Rightarrow> string + follower list" where
  "ex_dir_two sel = Inr [ex_follower, ex_second]"

definition ex_dir_capped :: "selector \<Rightarrow> string + follower list" where
  "ex_dir_capped sel = Inr [ex_second]"

definition ex_dir_tenth :: "selector \<Rightarrow> string + follower list" where
  "ex_dir_tenth sel = Inr [ex_tenth]"

definition ex_request :: request where
  "ex_request = \<lparr>masterId = None, followerId = None, listenerFollowers = None,
     symbol = Some ''NIFTY'', side = Some ''buy'', masterQty = Some 10, price = Some 100,
     productType = None, orderType = None, tradeId = Some ''T1''\<rparr>"

definition ex_request_one :: request where
  "ex_request_one = \<lparr>masterId = None, followerId = None, listenerFollowers = None,
     symbol = Some ''NIFTY'', side = Some ''buy'', masterQty = Some 1, price = Some 100,
     productType = None, orderType = None, tradeId = Some ''T2''\<rparr>"

definition broker_accepts :: broker where
  "broker_accepts n args =
     Returns (Some \<lparr>r_ok = True, r_order_id = Some ''ORD'', r_error = None\<rparr>)"


text \<open>The store after a first run of the sample request with a broker that accepts.\<close>

definition ex_after_first :: world where
  "ex_after_first = snd (POST ex_dir_one broker_accepts ''copytrade_1'' ex_request ex_world)"

section \<open>Resilient fetch client: fetchWithRetry (lib/alice.ts)\<close>

text \<open>
  \<^verbatim>\<open>fetch\<close> is external: the function \<open>net\<close> gives the outcome of the call made at each
  attempt number, a thrown network error or a response. A response carries its status
  and its body text; \<open>None\<close> for the body is a \<^verbatim>\<open>res.text()\<close> that rejects, which the code
  replaces by the empty string. The trace records every \<^verbatim>\<open>fetch\<close> and every
  \<^verbatim>\<open>setTimeout\<close> delay in order. A thrown \<^verbatim>\<open>Error\<close> is its message. \<^verbatim>\<open>retries\<close> is an
  integer (it may be negative), \<^verbatim>\<open>backoff\<close> a natural number of milliseconds.
\<close>

record http_response =
  status :: nat
  body_text :: "string option"

datatype fetch_outcome = NetworkError string | Response http_response

datatype event = Fetch nat | Sleep nat

definition res_ok :: "http_response \<Rightarrow> bool" where
  "res_ok r = (200 \<le> status r \<and> status r \<le> 299)"

text \<open>\<^verbatim>\<open>`HTTP ${res.status}: ${text}`\<close>\<close>

definition http_error_message :: "http_response \<Rightarrow> string" where
  "http_error_message r =
     ''HTTP '' @ show_nat (status r) @ '': '' @ (case body_text r of None \<Rightarrow> [] | Some t \<Rightarrow> t)"

text \<open>What the \<^verbatim>\<open>try\<close> block of one attempt throws, if it throws.\<close>

fun attempt_error :: "fetch_outcome \<Rightarrow> string option" where
  "attempt_error (NetworkError e) = Some e"
| "attempt_error (Response r) = (if res_ok r then None else Some (http_error_message r))"

function fetchWithRetry_loop ::
  "(nat \<Rightarrow> fetch_outcome) \<Rightarrow> int \<Rightarrow> nat \<Rightarrow> nat \<Rightarrow> event list
     \<Rightarrow> event list \<times> (string + http_response)" where
  "fetchWithRetry_loop net retries backoff attempt tr =
     (if int attempt \<le> retries then
        (case net attempt of
           Response r \<Rightarrow>
             if res_ok r then (tr @ [Fetch attempt], Inr r)
             else if int attempt = retries then (tr @ [Fetch attempt], Inl (http_error_message r))
             else fetchWithRetry_loop net retries backoff (Suc attempt)
                    (tr @ [Fetch attempt, Sleep (backoff * 2 ^ attempt)])
         | NetworkError e \<Rightarrow>
             if int attempt = retries then (tr @ [Fetch attempt], Inl e)
             else fetchWithRetry_loop net retries backoff (Suc attempt)
                    (tr @ [Fetch attempt, Sleep (backoff * 2 ^ attempt)]))
      else (tr, Inl ''Unreachable''))"
  by pat_completeness auto
termination
  by (relation "measure (\<lambda>(net, retries, backoff, attempt, tr). nat (retries + 1 - int attempt))")
     auto

declare fetchWithRetry_loop.simps [simp del]

definition fetchWithRetry ::
  "(nat \<Rightarrow> fetch_outcome) \<Rightarrow> int \<Rightarrow> nat \<Rightarrow> event list \<times> (string + http_response)" where
  "fetchWithRetry net retries backoff = fetchWithRetry_loop net retries backoff 0 []"

text \<open>The call with the default arguments \<^verbatim>\<open>retries = 3, backoff = 500\<close>.\<close>

definition fetchWithRetry_default ::
  "(nat \<Rightarrow> fetch_outcome) \<Rightarrow> event list \<times> (string + http_response)" where
  "fetchWithRetry_default net = fetchWithRetry net 3 500"

fun is_fetch :: "event \<Rightarrow> bool" where
  "is_fetch (Fetch _) = True"
| "is_fetch (Sleep _) = False"

definition fetches :: "event list \<Rightarrow> nat" where
  "fetches tr = length (filter is_fetch tr)"

fun sleeps :: "event list \<Rightarrow> nat list" where
  "sleeps [] = []"
| "sleeps (Sleep d # tr) = d # sleeps tr"
| "sleeps (Fetch _ # tr) = sleeps tr"

section \<open>Deduplication and ordering of trades\<close>

text \<open>
  \<^verbatim>\<open>getMasterTrades\<close> (lib/alice.ts) maps every raw record to a trade and filters the
  mapped array through a \<^verbatim>\<open>Set\<close> of the identifiers seen so far. \<^verbatim>\<open>fetchTrades\<close> (the
  trades table) puts the mapped trades into a \<^verbatim>\<open>Map\<close> keyed by identifier with
  \<^verbatim>\<open>uniqueMap.set\<close>, and sorts the map's values with the comparator
  \<^verbatim>\<open>new Date(b.timestamp).getTime() - new Date(a.timestamp).getTime()\<close>. Both are modelled
  from the mapped array on; a trade is its identifier, its timestamp and the fields
  carried along. \<open>getTime\<close> is the host's \<^verbatim>\<open>new Date(s).getTime()\<close>, \<open>None\<close> when it is NaN:
  the timestamps \<^verbatim>\<open>fetchTrades\<close> receives are whatever the trades route sent, which
  serves cached records as they came in.
\<close>

record trade =
  t_id :: string
  t_timestamp :: string
  t_symbol :: string
  t_side :: string
  t_quantity :: rat
  t_price :: rat

text \<open>The \<^verbatim>\<open>filter\<close> callback of lines 291-296, with the set \<open>seen\<close> as the list of its members.\<close>

fun dedupe_from :: "string list \<Rightarrow> trade list \<Rightarrow> trade list" where
  "dedupe_from seen [] = []"
| "dedupe_from seen (t # ts) =
     (if t_id t \<in> set seen then dedupe_from seen ts
      else t # dedupe_from (t_id t # seen) ts)"

definition getMasterTrades_deduped :: "trade list \<Rightarrow> trade list" where
  "getMasterTrades_deduped mapped = dedupe_from [] mapped"

text \<open>
  \<^verbatim>\<open>Map.prototype.set\<close>: an existing key keeps its place in the iteration order and gets
  the new value; a new key goes to the end.
\<close>

fun map_set :: "string \<Rightarrow> 'v \<Rightarrow> (string \<times> 'v) list \<Rightarrow> (string \<times> 'v) list" where
  "map_set k v [] = [(k, v)]"
| "map_set k v ((k', v') # m) = (if k' = k then (k, v) # m else (k', v') # map_set k v m)"

fun uniqueMap_of :: "(string \<times> trade) list \<Rightarrow> trade list \<Rightarrow> (string \<times> trade) list" where
  "uniqueMap_of m [] = m"
| "uniqueMap_of m (t # ts) = uniqueMap_of (map_set (t_id t) t m) ts"

text \<open>
  The comparator of lines 108-110; \<open>None\<close> is NaN, the difference when either timestamp
  has no time value.
\<close>

definition compare_newest :: "(string \<Rightarrow> int option) \<Rightarrow> trade \<Rightarrow> trade \<Rightarrow> int option" where
  "compare_newest getTime a b =
     (case getTime (t_timestamp b) of
        None \<Rightarrow> None
      | Some tb \<Rightarrow>
          (case getTime (t_timestamp a) of
             None \<Rightarrow> None
           | Some ta \<Rightarrow> Some (tb - ta)))"

text \<open>
  \<^verbatim>\<open>Array.prototype.sort\<close> with a comparator. The comparison of two elements takes a NaN
  from the comparator as 0. The sort is stable; it is written here as the insertion
  sort that puts an element behind those it compares greater than. When the comparator
  orders the elements consistently every stable sort returns this sequence; when it
  does not, the language leaves the order to the engine.
\<close>

definition sort_compare :: "('a \<Rightarrow> 'a \<Rightarrow> int option) \<Rightarrow> 'a \<Rightarrow> 'a \<Rightarrow> int" where
  "sort_compare comparefn x y = (case comparefn x y of None \<Rightarrow> 0 | Some v \<Rightarrow> v)"

fun sort_insert :: "('a \<Rightarrow> 'a \<Rightarrow> int option) \<Rightarrow> 'a \<Rightarrow> 'a list \<Rightarrow> 'a list" where
  "sort_insert comparefn x [] = [x]"
| "sort_insert comparefn x (y # ys) =
     (if sort_compare comparefn x y > 0 then y # sort_insert comparefn x ys
      else x # y # ys)"

fun js_sort :: "('a \<Rightarrow> 'a \<Rightarrow> int option) \<Rightarrow> 'a list \<Rightarrow> 'a list" where
  "js_sort comparefn [] = []"
| "js_sort comparefn (x # xs) = sort_insert comparefn x (js_sort comparefn xs)"

definition fetchTrades_sorted :: "(string \<Rightarrow> int option) \<Rightarrow> trade list \<Rightarrow> trade list" where
  "fetchTrades_sorted getTime mapped =
     js_sort (compare_newest getTime) (map snd (uniqueMap_of [] mapped))"

text \<open>
  The time values of a sequence of trades, in order, those without one left out; and
  newest first: these time values never increase along the sequence.
\<close>

fun times_of :: "(string \<Rightarrow> int option) \<Rightarrow> trade list \<Rightarrow> int list" where
  "times_of getTime [] = []"
| "times_of getTime (t # ts) =
     (case getTime (t_timestamp t) of
        None \<Rightarrow> times_of getTime ts
      | Some v \<Rightarrow> v # times_of getTime ts)"

definition newest_first :: "(string \<Rightarrow> int option) \<Rightarrow> trade list \<Rightarrow> bool" where
  "newest_first getTime ts = sorted (rev (times_of getTime ts))"

text \<open>Every timestamp of the batch has a time value.\<close>

definition all_dated :: "(string \<Rightarrow> int option) \<Rightarrow> trade list \<Rightarrow> bool" where
  "all_dated getTime ts = list_all (\<lambda>t. getTime (t_timestamp t) \<noteq> None) ts"

text \<open>The first, and the last, trade of a batch that carries a given identifier.\<close>

definition first_with_id :: "string \<Rightarrow> trade list \<Rightarrow> trade option" where
  "first_with_id k ts = find (\<lambda>t. t_id t = k) ts"

definition last_with_id :: "string \<Rightarrow> trade list \<Rightarrow> trade option" where
  "last_with_id k ts = find (\<lambda>t. t_id t = k) (rev ts)"

section \<open>Timestamp normalizer: parseTradeTimestamp (lib/alice.ts)\<close>

text \<open>
  The raw record is an object whose property values are JSON values. What the function
  takes from its host is collected in a record: the offset of local time from UTC in
  minutes (a fixed offset, no daylight saving), the current time in milliseconds,
  \<^verbatim>\<open>new Date(string).getTime()\<close> (\<open>None\<close> is NaN), \<^verbatim>\<open>Number(string)\<close>, the product of two
  doubles (the exact product rounded to the nearest double), and the rendering of a
  number as a string. A finite double is the rational it is equal to. Strings are sequences of 8-bit code units. A thrown exception that
  leaves the function is \<open>Inl\<close>.
\<close>

datatype jsval =
    JUndefined
  | JNull
  | JBool bool
  | JNum rat
  | JStr string
  | JArr "jsval list"
  | JObj "(string \<times> jsval) list"

datatype jsnum = NaN | PosInfinity | NegInfinity | Finite rat

datatype js_error = TypeError string

record host =
  tz_offset_minutes :: int
  now_ms :: int
  date_parse :: "string \<Rightarrow> int option"
  to_number :: "string \<Rightarrow> jsnum"
  float_times :: "rat \<Rightarrow> rat \<Rightarrow> rat"
  number_to_string :: "rat \<Rightarrow> string"

subsection \<open>Built-in date arithmetic\<close>

text \<open>
  Days since 1970-01-01 of a proleptic Gregorian date (month 1..12) and back; the
  ECMAScript operations MakeDay, MakeTime, MakeDate and TimeClip on integers; the
  two-digit-year rule of the \<^verbatim>\<open>Date\<close> constructor and of \<^verbatim>\<open>Date.UTC\<close>.
\<close>

definition days_from_civil :: "int \<Rightarrow> int \<Rightarrow> int \<Rightarrow> int" where
  "days_from_civil y m d =
     (let y' = (if m \<le> 2 then y - 1 else y);
          era = y' div 400;
          yoe = y' - era * 400;
          mp = (if m > 2 then m - 3 else m + 9);
          doy = (153 * mp + 2) div 5 + d - 1;
          doe = yoe * 365 + yoe div 4 - yoe div 100 + doy
      in era * 146097 + doe - 719468)"

definition civil_from_days :: "int \<Rightarrow> int \<times> int \<times> int" where
  "civil_from_days z0 =
     (let z = z0 + 719468;
          era = z div 146097;
          doe = z - era * 146097;
          yoe = (doe - doe div 1460 + doe div 36524 - doe div 146096) div 365;
          y = yoe + era * 400;
          doy = doe - (365 * yoe + yoe div 4 - yoe div 100);
          mp = (5 * doy + 2) div 153;
          d = doy - (153 * mp + 2) div 5 + 1;
          m = (if mp < 10 then mp + 3 else mp - 9)
      in (if m \<le> 2 then y + 1 else y, m, d))"

definition make_day :: "int \<Rightarrow> int \<Rightarrow> int \<Rightarrow> int" where
  "make_day year month date =
     days_from_civil (year + month div 12) (month mod 12 + 1) 1 + date - 1"

definition make_time :: "int \<Rightarrow> int \<Rightarrow> int \<Rightarrow> int \<Rightarrow> int" where
  "make_time h m s ms = h * 3600000 + m * 60000 + s * 1000 + ms"

definition make_date :: "int \<Rightarrow> int \<Rightarrow> int" where
  "make_date day time = day * 86400000 + time"

definition time_clip :: "int \<Rightarrow> int option" where
  "time_clip t = (if \<bar>t\<bar> \<le> 8640000000000000 then Some t else None)"

definition year_fix :: "int \<Rightarrow> int" where
  "year_fix y = (if 0 \<le> y \<and> y \<le> 99 then 1900 + y else y)"

text \<open>\<^verbatim>\<open>new Date(year, monthIndex, day, hours, minutes, seconds).getTime()\<close>: local time.\<close>

definition new_Date_local :: "host \<Rightarrow> int \<Rightarrow> int \<Rightarrow> int \<Rightarrow> int \<Rightarrow> int \<Rightarrow> int \<Rightarrow> int option" where
  "new_Date_local h year month day hour minute second =
     time_clip (make_date (make_day (year_fix year) month day) (make_time hour minute second 0)
                - tz_offset_minutes h * 60000)"

text \<open>\<^verbatim>\<open>Date.UTC(year, monthIndex, day, hours, minutes, seconds)\<close>\<close>

definition Date_UTC :: "int \<Rightarrow> int \<Rightarrow> int \<Rightarrow> int \<Rightarrow> int \<Rightarrow> int \<Rightarrow> int option" where
  "Date_UTC year month day hour minute second =
     time_clip (make_date (make_day (year_fix year) month day) (make_time hour minute second 0))"

definition pad_nat :: "nat \<Rightarrow> nat \<Rightarrow> string" where
  "pad_nat w n = replicate (w - length (show_nat n)) (CHR ''0'') @ show_nat n"

text \<open>\<^verbatim>\<open>Date.prototype.toISOString\<close> of a valid time value.\<close>

definition toISOString :: "int \<Rightarrow> string" where
  "toISOString t =
     (let tm = t mod 86400000;
          ymd = civil_from_days (t div 86400000);
          y = fst ymd; m = fst (snd ymd); d = snd (snd ymd);
          ystr = (if 0 \<le> y \<and> y \<le> 9999 then pad_nat 4 (nat y)
                  else (if y < 0 then ''-'' else ''+'') @ pad_nat 6 (nat \<bar>y\<bar>))
      in ystr @ ''-'' @ pad_nat 2 (nat m) @ ''-'' @ pad_nat 2 (nat d) @ ''T''
         @ pad_nat 2 (nat (tm div 3600000)) @ '':'' @ pad_nat 2 (nat (tm div 60000 mod 60))
         @ '':'' @ pad_nat 2 (nat (tm div 1000 mod 60)) @ ''.'' @ pad_nat 3 (nat (tm mod 1000))
         @ ''Z'')"

subsection \<open>Strings: trim, split, parseInt, the two regular expressions\<close>

definition is_digit :: "char \<Rightarrow> bool" where
  "is_digit c = (let n = (of_char c :: nat) in 48 \<le> n \<and> n \<le> 57)"

text \<open>White space and line terminators among the 8-bit code units (\<^verbatim>\<open>\s\<close>, \<^verbatim>\<open>trim\<close>).\<close>

definition is_space :: "char \<Rightarrow> bool" where
  "is_space c = (let n = (of_char c :: nat) in (9 \<le> n \<and> n \<le> 13) \<or> n = 32 \<or> n = 160)"

definition trim :: "string \<Rightarrow> string" where
  "trim s = rev (dropWhile is_space (rev (dropWhile is_space s)))"

text \<open>\<^verbatim>\<open>s.split(c)\<close> for a one-character separator.\<close>

fun split_on :: "char \<Rightarrow> string \<Rightarrow> string list" where
  "split_on c [] = [[]]"
| "split_on c (x # xs) =
     (if x = c then [] # split_on c xs
      else (case split_on c xs of
              [] \<Rightarrow> [[x]]
            | p # ps \<Rightarrow> (x # p) # ps))"

fun digits_value :: "int \<Rightarrow> string \<Rightarrow> int" where
  "digits_value acc [] = acc"
| "digits_value acc (c # cs) = digits_value (acc * 10 + (int (of_char c) - 48)) cs"

text \<open>
  \<^verbatim>\<open>parseInt(s, 10)\<close>: leading white space, an optional sign, the longest run of digits;
  \<open>None\<close> is NaN.
\<close>

definition parseInt10 :: "string \<Rightarrow> int option" where
  "parseInt10 s =
     (let s1 = dropWhile is_space s;
          neg = (s1 \<noteq> [] \<and> hd s1 = CHR ''-'');
          s2 = (if s1 \<noteq> [] \<and> (hd s1 = CHR ''-'' \<or> hd s1 = CHR ''+'') then tl s1 else s1);
          ds = takeWhile is_digit s2
      in if ds = [] then None
         else Some (if neg then - digits_value 0 ds else digits_value 0 ds))"

datatype tok = Digit | OptDigit | Lit char | Space

text \<open>Whole-string match of a sequence of tokens (\<open>OptDigit\<close> is \<^verbatim>\<open>\d?\<close>).\<close>

fun matches :: "tok list \<Rightarrow> string \<Rightarrow> bool" where
  "matches [] s = (s = [])"
| "matches (Digit # ps) s = (case s of [] \<Rightarrow> False | c # cs \<Rightarrow> is_digit c \<and> matches ps cs)"
| "matches (OptDigit # ps) s =
     ((case s of [] \<Rightarrow> False | c # cs \<Rightarrow> is_digit c \<and> matches ps cs) \<or> matches ps s)"
| "matches (Lit a # ps) s = (case s of [] \<Rightarrow> False | c # cs \<Rightarrow> c = a \<and> matches ps cs)"
| "matches (Space # ps) s = (case s of [] \<Rightarrow> False | c # cs \<Rightarrow> is_space c \<and> matches ps cs)"

text \<open>\<^verbatim>\<open>/^\d{4}-\d{2}-\d{2}\s\d{1,2}:\d{2}:\d{2}$/\<close>\<close>

definition ist_pattern :: "tok list" where
  "ist_pattern =
     [Digit, Digit, Digit, Digit, Lit (CHR ''-''), Digit, Digit, Lit (CHR ''-''), Digit, Digit,
      Space, Digit, OptDigit, Lit (CHR '':''), Digit, Digit, Lit (CHR '':''), Digit, Digit]"

text \<open>\<^verbatim>\<open>/^\d{1,2}:\d{2}(?::\d{2})?$/\<close>\<close>

definition matches_time_of_day :: "string \<Rightarrow> bool" where
  "matches_time_of_day s =
     (matches [Digit, OptDigit, Lit (CHR '':''), Digit, Digit] s
      \<or> matches [Digit, OptDigit, Lit (CHR '':''), Digit, Digit, Lit (CHR '':''), Digit, Digit] s)"

subsection \<open>Values as strings\<close>

definition has_key :: "string \<Rightarrow> (string \<times> jsval) list \<Rightarrow> bool" where
  "has_key k props = (map_of props k \<noteq> None)"

definition get_prop :: "(string \<times> jsval) list \<Rightarrow> string \<Rightarrow> jsval" where
  "get_prop props k = (case map_of props k of None \<Rightarrow> JUndefined | Some v \<Rightarrow> v)"

fun join_commas :: "string list \<Rightarrow> string" where
  "join_commas [] = []"
| "join_commas [s] = s"
| "join_commas (s # t # ss) = s @ '','' @ join_commas (t # ss)"

text \<open>
  \<^verbatim>\<open>value.toString()\<close>. An object parsed from JSON has no callable property of its own:
  if it has a property named toString, calling it throws; otherwise
  \<^verbatim>\<open>Object.prototype.toString\<close> answers. An array joins its elements, \<^verbatim>\<open>null\<close> and
  \<^verbatim>\<open>undefined\<close> elements as empty strings, the others converted the same way.
\<close>

fun js_toString :: "host \<Rightarrow> jsval \<Rightarrow> js_error + string"
  and js_elements :: "host \<Rightarrow> jsval list \<Rightarrow> js_error + string list" where
  "js_toString h JUndefined = Inl (TypeError ''Cannot read properties of undefined'')"
| "js_toString h JNull = Inl (TypeError ''Cannot read properties of null'')"
| "js_toString h (JBool b) = Inr (if b then ''true'' else ''false'')"
| "js_toString h (JNum n) = Inr (number_to_string h n)"
| "js_toString h (JStr s) = Inr s"
| "js_toString h (JArr xs) =
     (case js_elements h xs of Inl e \<Rightarrow> Inl e | Inr ss \<Rightarrow> Inr (join_commas ss))"
| "js_toString h (JObj props) =
     (if has_key ''toString'' props then Inl (TypeError ''toString is not a function'')
      else Inr ''[object Object]'')"
| "js_elements h [] = Inr []"
| "js_elements h (x # xs) =
     (case (if x = JUndefined \<or> x = JNull then Inr [] else js_toString h x) of
        Inl e \<Rightarrow> Inl e
      | Inr s \<Rightarrow> (case js_elements h xs of Inl e \<Rightarrow> Inl e | Inr ss \<Rightarrow> Inr (s # ss)))"

subsection \<open>The four formats\<close>

definition ist_offset_ms :: int where
  "ist_offset_ms = 19800000"

text \<open>
  Lines 76-98. \<open>None\<close> is an exception caught by the \<^verbatim>\<open>catch\<close> of that block: a missing
  second part after \<^verbatim>\<open>split(' ')\<close>, or an invalid date at \<^verbatim>\<open>toISOString\<close>.
\<close>

definition ist_branch :: "host \<Rightarrow> string \<Rightarrow> string option" where
  "ist_branch h val =
     (case split_on (CHR '' '') val of
        datePart # timePart # _ \<Rightarrow>
          (case (split_on (CHR ''-'') datePart, split_on (CHR '':'') timePart) of
             (yearStr # monthStr # dayStr # _, hourStr # minStr # secStr # _) \<Rightarrow>
               (case (parseInt10 yearStr, parseInt10 monthStr, parseInt10 dayStr,
                      parseInt10 hourStr, parseInt10 minStr, parseInt10 secStr) of
                  (Some year, Some month, Some day, Some hour, Some minute, Some second) \<Rightarrow>
                    (case new_Date_local h year (month - 1) day hour minute second of
                       Some istDate \<Rightarrow>
                         (case time_clip (istDate - ist_offset_ms) of
                            Some utcTime \<Rightarrow> Some (toISOString utcTime)
                          | None \<Rightarrow> None)
                     | None \<Rightarrow> None)
                | _ \<Rightarrow> None)
           | _ \<Rightarrow> None)
      | _ \<Rightarrow> None)"

text \<open>
  Lines 112-124. \<^verbatim>\<open>num * 1000\<close> is the host's product of doubles. \<^verbatim>\<open>new Date(timeMs)\<close> is
  invalid beyond 8.64e15 ms and drops the fraction of a valid time value; an infinite
  number gives an invalid date.
\<close>

definition unix_branch :: "host \<Rightarrow> string \<Rightarrow> string option" where
  "unix_branch h val =
     (case to_number h val of
        Finite num \<Rightarrow>
          if num > 0 then
            (let timeMs = (if num > 9999999999 then num else float_times h num 1000)
             in if timeMs \<le> 8640000000000000 then Some (toISOString \<lfloor>timeMs\<rfloor>)
                else None)
          else None
      | _ \<Rightarrow> None)"

text \<open>
  Lines 128-150, entered when the time-of-day expression matches. \<open>today\<close> is the UTC
  date of the host's clock; a missing \<^verbatim>\<open>parts[2]\<close> is read as 0; \<open>None\<close> is an invalid date.
\<close>

definition hhmm_branch :: "host \<Rightarrow> string \<Rightarrow> string option" where
  "hhmm_branch h val =
     (let today = civil_from_days (now_ms h div 86400000)
      in case split_on (CHR '':'') val of
           [] \<Rightarrow> None
         | hourStr # rest \<Rightarrow>
             (let minStr = (case rest of [] \<Rightarrow> [] | m # _ \<Rightarrow> m);
                  secStr = (case rest of
                              _ # s # _ \<Rightarrow> if s = [] then ''0'' else s
                            | _ \<Rightarrow> ''0'')
              in case (parseInt10 hourStr, parseInt10 minStr, parseInt10 secStr) of
                   (Some hour, Some minute, Some second) \<Rightarrow>
                     (case Date_UTC (fst today) (fst (snd today) - 1) (snd (snd today))
                             hour minute second of
                        Some istDate \<Rightarrow>
                          (case time_clip (istDate - ist_offset_ms) of
                             Some utcDate \<Rightarrow> Some (toISOString utcDate)
                           | None \<Rightarrow> None)
                      | None \<Rightarrow> None)
                 | _ \<Rightarrow> None))"

text \<open>The body of the loop for one trimmed, non-empty value: the formats in order.\<close>

definition parse_candidate :: "host \<Rightarrow> string \<Rightarrow> string option" where
  "parse_candidate h val =
     (case (if matches ist_pattern val then ist_branch h val else None) of
        Some isoString \<Rightarrow> Some isoString
      | None \<Rightarrow>
          (case date_parse h val of
             Some t \<Rightarrow> Some (toISOString t)
           | None \<Rightarrow>
               (case unix_branch h val of
                  Some isoString \<Rightarrow> Some isoString
                | None \<Rightarrow> if matches_time_of_day val then hhmm_branch h val else None)))"

subsection \<open>The candidate loop\<close>

definition candidate_keys :: "string list" where
  "candidate_keys =
     [''FillTime'', ''fillTime'', ''FILL_TIME'',
      ''exchangeTimestamp'', ''ExchangeTimestamp'', ''exchange_timestamp'', ''Exch_Timestamp'',
      ''TradedTime'', ''tradedTime'', ''Ttime'',
      ''OrderTime'', ''orderTime'', ''OrderCreateTime'', ''CreatedTime'', ''UpdatedTime'',
      ''time'', ''Time'', ''timestamp'', ''Timestamp'', ''tradeTime'', ''executionTime'']"

text \<open>
  Lines 67-152 over the remaining candidates: \<open>Inr (Some isoString)\<close> is a \<^verbatim>\<open>return\<close> from inside
  the loop, \<open>Inr None\<close> the loop running to its end, \<open>Inl\<close> the exception of line 70,
  which no \<^verbatim>\<open>try\<close> encloses.
\<close>

fun scan_candidates ::
  "host \<Rightarrow> (string \<times> jsval) list \<Rightarrow> string list \<Rightarrow> js_error + string option" where
  "scan_candidates h d [] = Inr None"
| "scan_candidates h d (k # ks) =
     (let v = get_prop d k
      in if v = JNull \<or> v = JUndefined \<or> v = JStr [] then scan_candidates h d ks
         else (case js_toString h v of
                 Inl e \<Rightarrow> Inl e
               | Inr s \<Rightarrow>
                   (let val = trim s
                    in if val = [] then scan_candidates h d ks
                       else (case parse_candidate h val of
                               Some isoString \<Rightarrow> Inr (Some isoString)
                             | None \<Rightarrow> scan_candidates h d ks))))"

definition parseTradeTimestamp ::
  "host \<Rightarrow> (string \<times> jsval) list \<Rightarrow> string option \<Rightarrow> js_error + string" where
  "parseTradeTimestamp h d fallbackTime =
     (case scan_candidates h d candidate_keys of
        Inl e \<Rightarrow> Inl e
      | Inr (Some isoString) \<Rightarrow> Inr isoString
      | Inr None \<Rightarrow>
          if truthy_str fallbackTime then Inr (the fallbackTime)
          else Inr (toISOString 0))"

section \<open>Vocabulary and sample inputs for the remaining statements\<close>

subsection \<open>Resilient fetch client\<close>

text \<open>
  The trace of \<open>n\<close> failed attempts starting at attempt number \<open>a\<close>, each followed by its
  delay, and an endpoint that answers 500 to every call.
\<close>

fun failed_rounds :: "nat \<Rightarrow> nat \<Rightarrow> nat \<Rightarrow> event list" where
  "failed_rounds backoff a 0 = []"
| "failed_rounds backoff a (Suc n) =
     [Fetch a, Sleep (backoff * 2 ^ a)] @ failed_rounds backoff (Suc a) n"

definition always_500 :: "nat \<Rightarrow> fetch_outcome" where
  "always_500 k = Response \<lparr>status = 500, body_text = Some ''Internal Server Error''\<rparr>"

subsection \<open>Trades\<close>

text \<open>
  \<^verbatim>\<open>new Date(s).getTime()\<close> on the strings of the sample trades: the time value of a
  timestamp in the format \<^verbatim>\<open>toISOString\<close> emits, and NaN on \<^verbatim>\<open>not a time\<close> (the samples use
  no other string).
\<close>

definition iso_pattern :: "tok list" where
  "iso_pattern =
     [Digit, Digit, Digit, Digit, Lit (CHR ''-''), Digit, Digit, Lit (CHR ''-''), Digit, Digit,
      Lit (CHR ''T''), Digit, Digit, Lit (CHR '':''), Digit, Digit, Lit (CHR '':''), Digit, Digit,
      Lit (CHR ''.''), Digit, Digit, Digit, Lit (CHR ''Z'')]"

definition iso_getTime :: "string \<Rightarrow> int option" where
  "iso_getTime s =
     (if matches iso_pattern s then
        Some (make_date
          (make_day (digits_value 0 (take 4 s)) (digits_value 0 (take 2 (drop 5 s)) - 1)
             (digits_value 0 (take 2 (drop 8 s))))
          (make_time (digits_value 0 (take 2 (drop 11 s))) (digits_value 0 (take 2 (drop 14 s)))
             (digits_value 0 (take 2 (drop 17 s))) (digits_value 0 (take 3 (drop 20 s)))))
      else None)"

definition ex_older :: trade where
  "ex_older = \<lparr>t_id = ''A1'', t_timestamp = ''2024-02-10T09:00:45.000Z'', t_symbol = ''NIFTY'',
     t_side = ''Buy'', t_quantity = 1, t_price = 100\<rparr>"

definition ex_newer :: trade where
  "ex_newer = \<lparr>t_id = ''A2'', t_timestamp = ''2024-02-11T09:00:45.000Z'', t_symbol = ''NIFTY'',
     t_side = ''Sell'', t_quantity = 1, t_price = 101\<rparr>"

text \<open>A second record with the identifier of the first sample trade.\<close>

definition ex_repeat :: trade where
  "ex_repeat = \<lparr>t_id = ''A1'', t_timestamp = ''2024-02-10T09:00:45.000Z'', t_symbol = ''NIFTY'',
     t_side = ''Buy'', t_quantity = 2, t_price = 100\<rparr>"

text \<open>A cached record whose timestamp is no date.\<close>

definition ex_undated :: trade where
  "ex_undated = \<lparr>t_id = ''A9'', t_timestamp = ''not a time'', t_symbol = ''NIFTY'',
     t_side = ''Buy'', t_quantity = 1, t_price = 99\<rparr>"

subsection \<open>Timestamp normalizer\<close>

text \<open>
  A candidate value parses when the loop would return on it: it is not \<^verbatim>\<open>null\<close>,
  \<^verbatim>\<open>undefined\<close> or the empty string, it has a string form, and the trimmed string form is
  not empty and parses under one of the four formats. No candidate of a record parses
  when this holds of none of the twenty-one fields.
\<close>

definition candidate_parses :: "host \<Rightarrow> jsval \<Rightarrow> bool" where
  "candidate_parses h v =
     (v \<noteq> JNull \<and> v \<noteq> JUndefined \<and> v \<noteq> JStr []
      \<and> (case js_toString h v of
            Inl e \<Rightarrow> False
          | Inr s \<Rightarrow> trim s \<noteq> [] \<and> parse_candidate h (trim s) \<noteq> None))"

definition no_candidate_parses :: "host \<Rightarrow> (string \<times> jsval) list \<Rightarrow> bool" where
  "no_candidate_parses h d =
     list_all (\<lambda>k. \<not> candidate_parses h (get_prop d k)) candidate_keys"

definition epoch_sentinel :: string where
  "epoch_sentinel = ''1970-01-01T00:00:00.000Z''"

text \<open>
  The values whose \<^verbatim>\<open>toString()\<close> returns: everything but an object with a property named
  toString of its own, and an array holding such an object at any depth.
\<close>

fun stringable :: "jsval \<Rightarrow> bool" where
  "stringable (JObj props) = (\<not> has_key ''toString'' props)"
| "stringable (JArr xs) = list_all stringable xs"
| "stringable v = True"

definition all_stringable :: "(string \<times> jsval) list \<Rightarrow> bool" where
  "all_stringable d = list_all (\<lambda>k. stringable (get_prop d k)) candidate_keys"

text \<open>
  Two hosts that differ in the local time zone only, UTC and UTC+5:30. On both,
  \<^verbatim>\<open>new Date(string)\<close> is invalid and \<^verbatim>\<open>Number(string)\<close> is NaN, as they are for the strings
  of the samples that reach them (\<^verbatim>\<open>not a time\<close> and \<^verbatim>\<open>,true\<close>), and a number is rendered
  by its integer part in decimal. No sample reaches the product of doubles, \<^verbatim>\<open>Number\<close>
  being NaN; it is given as the product of two operands whose product is a double.
\<close>

definition no_date :: "string \<Rightarrow> int option" where
  "no_date s = None"

definition not_a_number :: "string \<Rightarrow> jsnum" where
  "not_a_number s = NaN"

definition exact_product :: "rat \<Rightarrow> rat \<Rightarrow> rat" where
  "exact_product a b = a * b"

definition render_integer :: "rat \<Rightarrow> string" where
  "render_integer n = (if n < 0 then ''-'' else []) @ show_nat (nat \<lfloor>\<bar>n\<bar>\<rfloor>)"

definition ex_host_utc :: host where
  "ex_host_utc = \<lparr>tz_offset_minutes = 0, now_ms = 1707565845000, date_parse = no_date,
     to_number = not_a_number, float_times = exact_product,
     number_to_string = render_integer\<rparr>"

definition ex_host_ist :: host where
  "ex_host_ist = \<lparr>tz_offset_minutes = 330, now_ms = 1707565845000, date_parse = no_date,
     to_number = not_a_number, float_times = exact_product,
     number_to_string = render_integer\<rparr>"

section \<open>Properties of the fan-out\<close>

lemma show_small: "show_nat 0 = ''0'' \<and> show_nat (Suc (Suc 0)) = ''2''"
  by code_simp

text \<open>
  One iteration, whatever element of the array it runs on: the lookup is issued with a
  NULL follower id, the array it resolves to has length 2, and the iteration ends at
  line 138.
\<close>

lemma step_skips:
  "copy_to_follower br c p (w, st) =
     (log_query (SelectHistory (c_tradeId c) None) w,
      (push_result skipped_unnamed st)\<lparr>n_skipped := Suc (n_skipped st)\<rparr>)"
  by (simp add: copy_to_follower_def Let_def existingCopy_def query_result_def
      packet_text_def skipped_entry_def skipped_unnamed_def duplicate_reason_def)

text \<open>
  The whole run on a request that passes validation, when the selection succeeds: two
  iterations, one on the rows and one on the column descriptions, three queries, no
  broker call, no row written.
\<close>

lemma POST_valid_skips:
  assumes "valid_request req" and "dir (select_for req) = Inr rows"
  shows "POST dir br cid req w =
     (Executed
        \<lparr>b_copyTradeId = cid, b_masterTradeId = the (tradeId req),
         b_message = ''Copy trade executed: 0 successful, 2 skipped (already copied), 0 failed'',
         b_results = [skipped_unnamed, skipped_unnamed],
         b_summary = \<lparr>successCount = 0, failedCount = 0, skippedDuplicateCount = 2,
                      totalFollowers = 2\<rparr>\<rparr>,
      w\<lparr>db_log := db_log w @ [SelectFollowers (select_for req),
                               SelectHistory (the (tradeId req)) None,
                               SelectHistory (the (tradeId req)) None]\<rparr>)"
  using assms show_small
  by (simp add: POST_def valid_request_def Let_def query_result_def step_skips
      initial_state_def push_result_def executed_message_def ctx_of_def log_query_def)

lemma followerQty_of_packet:
  "followerQty_of mq p = (if of_int \<lfloor>mq\<rfloor> > (1000 :: rat) then 1000 else of_int \<lfloor>mq\<rfloor>)"
  by (simp add: followerQty_of_def packet_number_def or_num_def Let_def)

text \<open>
  Claim C1, at the handler as shipped. For every request that passes validation and
  every selection the server answers, each of two invocations with the same inputs
  reports the same two SKIPPED entries, which name no follower; the two invocations call
  the broker for no one and leave \<^verbatim>\<open>copied_trade_history\<close> and \<^verbatim>\<open>copy_trades\<close> as they were.
  No SUCCESS or FAILED record for a pair (T, F) comes to exist.
\<close>

theorem two_runs_leave_no_record:
  assumes "valid_request req" and "dir (select_for req) = Inr rows"
  shows "response_results (fst (POST dir br cid req w)) = [skipped_unnamed, skipped_unnamed]
       \<and> response_results (fst (POST dir br cid' req (snd (POST dir br cid req w))))
           = [skipped_unnamed, skipped_unnamed]
       \<and> copied_trade_history (snd (POST dir br cid' req (snd (POST dir br cid req w))))
           = copied_trade_history w
       \<and> copy_trades (snd (POST dir br cid' req (snd (POST dir br cid req w))))
           = copy_trades w
       \<and> broker_calls (snd (POST dir br cid' req (snd (POST dir br cid req w))))
           = broker_calls w"
  by (simp add: POST_valid_skips[where dir = dir and req = req and rows = rows, OF assms] response_results_def)

text \<open>
  Claim C5. If symbol, side, masterQty, price or tradeId is absent from the body, the
  handler answers with status 400 and one of its two validation messages, and the store
  is exactly as before: no query was issued (the query log is unchanged), no broker call
  was made and no row was written.
\<close>

theorem missing_field_rejected_before_any_work:
  assumes "symbol req = None \<or> side req = None \<or> masterQty req = None \<or> price req = None
           \<or> tradeId req = None"
  shows "POST dir br cid req w
           = (Rejected 400 ''Missing required trade fields: symbol, side, masterQty, price'', w)
       \<or> POST dir br cid req w
           = (Rejected 400 ''Missing tradeId - required to prevent duplicate copies'', w)"
  using assms by (auto simp: POST_def)

text \<open>
  Claim C9. A body whose masterQty or price is the number 0 is rejected with the
  "Missing required trade fields" message and status 400, the store untouched, because
  the presence check is a truthiness check.
\<close>

theorem zero_quantity_or_price_rejected:
  assumes "masterQty req = Some 0 \<or> price req = Some 0"
  shows "POST dir br cid req w
           = (Rejected 400 ''Missing required trade fields: symbol, side, masterQty, price'', w)"
  using assms by (auto simp: POST_def)

text \<open>
  Claim C3, at the handler as shipped. For every request that passes validation and
  every selection the server answers, no result carries a follower quantity, both
  results give the duplicate reason of line 134, and no order of any quantity is placed
  and no row written. Lines 142-148, which no run reaches, would take the multiplier 1
  and the cap 1000 on either element of the array, whatever the rows hold.
\<close>

theorem no_quantity_from_follower_row:
  assumes "valid_request req" and "dir (select_for req) = Inr rows"
  shows "map e_followerQty (response_results (fst (POST dir br cid req w))) = [None, None]
       \<and> map e_reason (response_results (fst (POST dir br cid req w)))
           = [Some duplicate_reason, Some duplicate_reason]
       \<and> broker_calls (snd (POST dir br cid req w)) = broker_calls w
       \<and> copied_trade_history (snd (POST dir br cid req w)) = copied_trade_history w
       \<and> copy_trades (snd (POST dir br cid req w)) = copy_trades w
       \<and> followerQty_of (the (masterQty req)) (RowsPart rows)
           = (if of_int \<lfloor>the (masterQty req)\<rfloor> > (1000 :: rat) then 1000
              else of_int \<lfloor>the (masterQty req)\<rfloor>)"
  by (simp add: POST_valid_skips[where dir = dir and req = req and rows = rows, OF assms] response_results_def skipped_unnamed_def
      followerQty_of_packet)


lemma ex_request_valid: "valid_request ex_request \<and> valid_request ex_request_one"
  by (simp add: valid_request_def ex_request_def ex_request_one_def)

text \<open>
  Witness for claim C1: the sample request for trade T1, one enabled follower F1 and a
  broker that accepts every order, run twice from the empty store. The first run
  already reports SKIPPED, and after the second the tables are still empty.
\<close>

theorem two_runs_leave_no_record_witness:
  "valid_request ex_request
   \<and> ex_dir_one (select_for ex_request) = Inr [ex_follower]
   \<and> map e_status (response_results
        (fst (POST ex_dir_one broker_accepts ''copytrade_1'' ex_request ex_world)))
       = [''SKIPPED'', ''SKIPPED'']
   \<and> map e_followerId (response_results
        (fst (POST ex_dir_one broker_accepts ''copytrade_1'' ex_request ex_world)))
       = [None, None]
   \<and> map e_status (response_results
        (fst (POST ex_dir_one broker_accepts ''copytrade_2'' ex_request ex_after_first)))
       = [''SKIPPED'', ''SKIPPED'']
   \<and> copied_trade_history
        (snd (POST ex_dir_one broker_accepts ''copytrade_2'' ex_request ex_after_first)) = []
   \<and> copy_trades
        (snd (POST ex_dir_one broker_accepts ''copytrade_2'' ex_request ex_after_first)) = []
   \<and> broker_calls
        (snd (POST ex_dir_one broker_accepts ''copytrade_2'' ex_request ex_after_first)) = []"
proof -
  have v: "valid_request ex_request" using ex_request_valid by simp
  have d: "ex_dir_one (select_for ex_request) = Inr [ex_follower]"
    by (simp add: ex_dir_one_def)
  note t = two_runs_leave_no_record [where dir = ex_dir_one and req = ex_request
      and rows = "[ex_follower]" and br = broker_accepts and cid = "''copytrade_1''"
      and w = ex_world and cid' = "''copytrade_2''", OF v d]
  show ?thesis
    using v d t by (simp add: ex_after_first_def skipped_unnamed_def ex_world_def)
qed

text \<open>Witness for claim C5: the sample request without its tradeId.\<close>

theorem missing_field_rejected_witness:
  "tradeId (ex_request\<lparr>tradeId := None\<rparr>) = None
   \<and> POST ex_dir_two broker_accepts ''copytrade_1'' (ex_request\<lparr>tradeId := None\<rparr>) ex_world
       = (Rejected 400 ''Missing tradeId - required to prevent duplicate copies'', ex_world)"
proof -
  have h: "tradeId (ex_request\<lparr>tradeId := None\<rparr>) = None" by simp
  then have "symbol (ex_request\<lparr>tradeId := None\<rparr>) = None
      \<or> side (ex_request\<lparr>tradeId := None\<rparr>) = None
      \<or> masterQty (ex_request\<lparr>tradeId := None\<rparr>) = None
      \<or> price (ex_request\<lparr>tradeId := None\<rparr>) = None
      \<or> tradeId (ex_request\<lparr>tradeId := None\<rparr>) = None" by simp
  from missing_field_rejected_before_any_work [OF this, of ex_dir_two broker_accepts "''copytrade_1''" ex_world]
  have "POST ex_dir_two broker_accepts ''copytrade_1'' (ex_request\<lparr>tradeId := None\<rparr>) ex_world
       = (Rejected 400 ''Missing tradeId - required to prevent duplicate copies'', ex_world)"
    by (simp add: POST_def ex_request_def)
  with h show ?thesis by simp
qed

text \<open>Witness for claim C9: the sample request with masterQty 0.\<close>

theorem zero_quantity_or_price_witness:
  "masterQty (ex_request\<lparr>masterQty := Some 0\<rparr>) = Some 0
   \<and> POST ex_dir_two broker_accepts ''copytrade_1'' (ex_request\<lparr>masterQty := Some 0\<rparr>) ex_world
       = (Rejected 400 ''Missing required trade fields: symbol, side, masterQty, price'', ex_world)"
proof -
  have h: "masterQty (ex_request\<lparr>masterQty := Some 0\<rparr>) = Some 0" by simp
  then have "masterQty (ex_request\<lparr>masterQty := Some 0\<rparr>) = Some 0
      \<or> price (ex_request\<lparr>masterQty := Some 0\<rparr>) = Some 0" by simp
  from zero_quantity_or_price_rejected [OF this, of ex_dir_two broker_accepts "''copytrade_1''" ex_world]
  show ?thesis using h by simp
qed

text \<open>
  Witness for claim C3: the three samples of the claim. Master quantity 10 with a
  follower of multiplier 1/2 and cap 100, master quantity 10 with a follower of
  multiplier 2 and cap 15, master quantity 1 with a follower of multiplier 1/10. In each
  the response carries no quantity and gives the duplicate reason, and no order is
  placed; on the element that holds the follower's row, lines 142-148 give the master
  quantity.
\<close>

theorem no_quantity_from_follower_row_witness:
  "valid_request ex_request
   \<and> valid_request ex_request_one
   \<and> ex_dir_one (select_for ex_request) = Inr [ex_follower]
   \<and> ex_dir_capped (select_for ex_request) = Inr [ex_second]
   \<and> ex_dir_tenth (select_for ex_request_one) = Inr [ex_tenth]
   \<and> map e_followerQty (response_results
        (fst (POST ex_dir_one broker_accepts ''copytrade_1'' ex_request ex_world)))
       = [None, None]
   \<and> broker_calls (snd (POST ex_dir_one broker_accepts ''copytrade_1'' ex_request ex_world))
       = []
   \<and> followerQty_of 10 (RowsPart [ex_follower]) = 10
   \<and> map e_followerQty (response_results
        (fst (POST ex_dir_capped broker_accepts ''copytrade_1'' ex_request ex_world)))
       = [None, None]
   \<and> broker_calls (snd (POST ex_dir_capped broker_accepts ''copytrade_1'' ex_request ex_world))
       = []
   \<and> followerQty_of 10 (RowsPart [ex_second]) = 10
   \<and> map e_reason (response_results
        (fst (POST ex_dir_tenth broker_accepts ''copytrade_1'' ex_request_one ex_world)))
       = [Some duplicate_reason, Some duplicate_reason]
   \<and> followerQty_of 1 (RowsPart [ex_tenth]) = 1"
proof -
  have v: "valid_request ex_request" and v1: "valid_request ex_request_one"
    using ex_request_valid by simp_all
  have d1: "ex_dir_one (select_for ex_request) = Inr [ex_follower]"
    by (simp add: ex_dir_one_def)
  have d2: "ex_dir_capped (select_for ex_request) = Inr [ex_second]"
    by (simp add: ex_dir_capped_def)
  have d3: "ex_dir_tenth (select_for ex_request_one) = Inr [ex_tenth]"
    by (simp add: ex_dir_tenth_def)
  have m: "masterQty ex_request = Some 10" "masterQty ex_request_one = Some 1"
    by (simp_all add: ex_request_def ex_request_one_def)
  have w: "broker_calls ex_world = []" by (simp add: ex_world_def)
  note t1 = no_quantity_from_follower_row [where dir = ex_dir_one and req = ex_request
      and rows = "[ex_follower]" and br = broker_accepts and cid = "''copytrade_1''"
      and w = ex_world, OF v d1]
  note t2 = no_quantity_from_follower_row [where dir = ex_dir_capped and req = ex_request
      and rows = "[ex_second]" and br = broker_accepts and cid = "''copytrade_1''"
      and w = ex_world, OF v d2]
  note t3 = no_quantity_from_follower_row [where dir = ex_dir_tenth and req = ex_request_one
      and rows = "[ex_tenth]" and br = broker_accepts and cid = "''copytrade_1''"
      and w = ex_world, OF v1 d3]
  have q1: "followerQty_of 10 (RowsPart [ex_follower]) = 10" using t1 m by simp
  have q2: "followerQty_of 10 (RowsPart [ex_second]) = 10" using t2 m by simp
  have q3: "followerQty_of 1 (RowsPart [ex_tenth]) = 1" using t3 m by simp
  have b1: "broker_calls (snd (POST ex_dir_one broker_accepts ''copytrade_1'' ex_request ex_world))
       = []" using t1 w by simp
  have b2: "broker_calls (snd (POST ex_dir_capped broker_accepts ''copytrade_1'' ex_request ex_world))
       = []" using t2 w by simp
  show ?thesis
    using v v1 d1 d2 d3 t1 t2 t3 q1 q2 q3 b1 b2 by blast
qed


section \<open>Properties of the resilient fetch client\<close>

lemma fetches_append: "fetches (xs @ ys) = fetches xs + fetches ys"
  by (simp add: fetches_def)

lemma sleeps_append: "sleeps (xs @ ys) = sleeps xs @ sleeps ys"
  by (induction xs rule: sleeps.induct) auto

lemma fetches_failed_rounds: "fetches (failed_rounds b a n) = n"
  by (induction n arbitrary: a) (auto simp: fetches_def)

lemma sleeps_failed_rounds: "sleeps (failed_rounds b a n) = map (\<lambda>k. b * 2 ^ k) [a..<a + n]"
proof (induction n arbitrary: a)
  case 0
  then show ?case by simp
next
  case (Suc n)
  have "[a..<a + Suc n] = a # [Suc a..<Suc a + n]" by (simp add: upt_rec)
  then show ?case using Suc.IH[of "Suc a"] by simp
qed

lemma loop_bound:
  "fetches (fst (fetchWithRetry_loop net retries backoff a tr))
     \<le> fetches tr + nat (retries + 1 - int a)"
proof (induction net retries backoff a tr rule: fetchWithRetry_loop.induct)
  case (1 net retries backoff attempt tr)
  show ?case
  proof (cases "int attempt \<le> retries")
    case False
    then show ?thesis by (simp add: fetchWithRetry_loop.simps)
  next
    case True
    show ?thesis
    proof (cases "attempt_error (net attempt) = None \<or> int attempt = retries")
      case True
      then show ?thesis using \<open>int attempt \<le> retries\<close>
        by (subst fetchWithRetry_loop.simps)
           (auto simp: fetches_append fetches_def split: fetch_outcome.splits if_splits)
    next
      case False
      then have ne: "int attempt \<noteq> retries" and err: "attempt_error (net attempt) \<noteq> None" by auto
      have step: "fetchWithRetry_loop net retries backoff attempt tr
           = fetchWithRetry_loop net retries backoff (Suc attempt)
               (tr @ [Fetch attempt, Sleep (backoff * 2 ^ attempt)])"
        using True ne err
        by (subst fetchWithRetry_loop.simps) (auto split: fetch_outcome.splits if_splits)
      have IH: "fetches (fst (fetchWithRetry_loop net retries backoff (Suc attempt)
               (tr @ [Fetch attempt, Sleep (backoff * 2 ^ attempt)])))
            \<le> fetches (tr @ [Fetch attempt, Sleep (backoff * 2 ^ attempt)])
                + nat (retries + 1 - int (Suc attempt))"
      proof (cases "net attempt")
        case (NetworkError e)
        then show ?thesis using "1.IH" True ne by simp
      next
        case (Response r)
        then have "\<not> res_ok r" using err by auto
        then show ?thesis using "1.IH" True Response ne by simp
      qed
      show ?thesis using IH True ne unfolding step
        by (simp add: fetches_append fetches_def)
    qed
  qed
qed

lemma loop_first_success:
  assumes "a \<le> k" "int k \<le> retries"
      and "\<forall>j. a \<le> j \<and> j < k \<longrightarrow> attempt_error (net j) \<noteq> None"
      and "net k = Response r" "res_ok r"
  shows "fetchWithRetry_loop net retries backoff a tr
           = (tr @ failed_rounds backoff a (k - a) @ [Fetch k], Inr r)"
  using assms
proof (induction "k - a" arbitrary: a tr)
  case 0
  then have "a = k" by simp
  then show ?case using 0
    by (subst fetchWithRetry_loop.simps) simp
next
  case (Suc n)
  then have lt: "a < k" by simp
  then have ne: "int a \<noteq> retries" "int a \<le> retries" using Suc.prems by auto
  have err: "attempt_error (net a) \<noteq> None" using Suc.prems lt by simp
  have step: "fetchWithRetry_loop net retries backoff a tr
           = fetchWithRetry_loop net retries backoff (Suc a)
               (tr @ [Fetch a, Sleep (backoff * 2 ^ a)])"
    using ne err
    by (subst fetchWithRetry_loop.simps) (auto split: fetch_outcome.splits if_splits)
  have n: "n = k - Suc a" using Suc.hyps(2) by simp
  have ka: "k - a = Suc (k - Suc a)" using lt by simp
  have "fetchWithRetry_loop net retries backoff (Suc a) (tr @ [Fetch a, Sleep (backoff * 2 ^ a)])
      = ((tr @ [Fetch a, Sleep (backoff * 2 ^ a)]) @ failed_rounds backoff (Suc a) (k - Suc a) @ [Fetch k], Inr r)"
    using Suc.hyps(1)[OF n] Suc.prems lt by simp
  then show ?case unfolding step ka by simp
qed

lemma loop_all_fail:
  assumes "int a \<le> retries"
      and "\<forall>j. a \<le> j \<and> int j \<le> retries \<longrightarrow> attempt_error (net j) \<noteq> None"
  shows "fetchWithRetry_loop net retries backoff a tr
           = (tr @ failed_rounds backoff a (nat retries - a) @ [Fetch (nat retries)],
              Inl (the (attempt_error (net (nat retries)))))"
  using assms
proof (induction "nat retries - a" arbitrary: a tr)
  case 0
  then have a: "int a = retries" by simp
  then have err: "attempt_error (net a) \<noteq> None" using 0 by simp
  have "nat retries = a" using a by simp
  then show ?case using a err
    by (subst fetchWithRetry_loop.simps) (auto split: fetch_outcome.splits if_splits)
next
  case (Suc n)
  then have ne: "int a \<noteq> retries" "int a \<le> retries" by auto
  have err: "attempt_error (net a) \<noteq> None" using Suc.prems by simp
  have step: "fetchWithRetry_loop net retries backoff a tr
           = fetchWithRetry_loop net retries backoff (Suc a)
               (tr @ [Fetch a, Sleep (backoff * 2 ^ a)])"
    using ne err
    by (subst fetchWithRetry_loop.simps) (auto split: fetch_outcome.splits if_splits)
  have n: "n = nat retries - Suc a" using Suc.hyps(2) by simp
  have ka: "nat retries - a = Suc (nat retries - Suc a)" using Suc.hyps(2) by simp
  have le: "int (Suc a) \<le> retries" using ne by simp
  have "fetchWithRetry_loop net retries backoff (Suc a) (tr @ [Fetch a, Sleep (backoff * 2 ^ a)])
      = ((tr @ [Fetch a, Sleep (backoff * 2 ^ a)]) @ failed_rounds backoff (Suc a) (nat retries - Suc a) @ [Fetch (nat retries)],
          Inl (the (attempt_error (net (nat retries)))))"
    using Suc.hyps(1)[OF n le] Suc.prems by simp
  then show ?case unfolding step ka by simp
qed

lemma always_500_run: "fetchWithRetry_default always_500
   = ([Fetch 0, Sleep 500, Fetch 1, Sleep 1000, Fetch 2, Sleep 2000, Fetch 3],
      Inl ''HTTP 500: Internal Server Error'')"
  by code_simp

text \<open>
  Claim C4, as the code has it. A call makes at most \<open>retries + 1\<close> attempts. When
  every attempt up to number \<open>retries\<close> fails (a thrown network error or a response
  outside 200..299), the trace is \<open>retries\<close> failed attempts, each followed by a delay of
  \<open>backoff * 2 ^ attempt\<close>, then the last attempt; the error thrown is the last attempt's:
  "HTTP", the status and the body text for a response, the network error otherwise. The
  first attempt that succeeds ends the call with its response. With the defaults an
  endpoint that always fails is called 4 times, after delays of 500, 1000 and 2000 ms.
\<close>

theorem fetch_retry_bounded_with_backoff:
  "fetches (fst (fetchWithRetry net retries backoff)) \<le> nat (retries + 1)
   \<and> (0 \<le> retries \<and> (\<forall>k \<le> nat retries. attempt_error (net k) \<noteq> None) \<longrightarrow>
        fetchWithRetry net retries backoff
          = (failed_rounds backoff 0 (nat retries) @ [Fetch (nat retries)],
             Inl (the (attempt_error (net (nat retries)))))
        \<and> fetches (fst (fetchWithRetry net retries backoff)) = nat retries + 1
        \<and> sleeps (fst (fetchWithRetry net retries backoff))
            = map (\<lambda>k. backoff * 2 ^ k) [0..<nat retries])
   \<and> (\<forall>r. net (nat retries) = Response r \<and> \<not> res_ok r \<longrightarrow>
          the (attempt_error (net (nat retries)))
            = ''HTTP '' @ show_nat (status r) @ '': ''
                @ (case body_text r of None \<Rightarrow> [] | Some t \<Rightarrow> t))
   \<and> (\<forall>e. net (nat retries) = NetworkError e \<longrightarrow>
          the (attempt_error (net (nat retries))) = e)
   \<and> (\<forall>k r. int k \<le> retries \<and> (\<forall>j < k. attempt_error (net j) \<noteq> None)
              \<and> net k = Response r \<and> res_ok r \<longrightarrow>
          fetchWithRetry net retries backoff = (failed_rounds backoff 0 k @ [Fetch k], Inr r))
   \<and> ((\<forall>k \<le> 3. attempt_error (net k) \<noteq> None) \<longrightarrow>
          fetches (fst (fetchWithRetry_default net)) = 4
          \<and> sleeps (fst (fetchWithRetry_default net)) = [500, 1000, 2000])"
proof -
  have bound: "fetches (fst (fetchWithRetry net retries backoff)) \<le> nat (retries + 1)"
    using loop_bound[of net retries backoff 0 "[]"]
    by (simp add: fetchWithRetry_def fetches_def)
  have exhaust: "fetchWithRetry net' n b
          = (failed_rounds b 0 (nat n) @ [Fetch (nat n)],
             Inl (the (attempt_error (net' (nat n)))))"
    if "0 \<le> n" "\<forall>k \<le> nat n. attempt_error (net' k) \<noteq> None" for net' n b
  proof -
    have "\<forall>j. 0 \<le> j \<and> int j \<le> n \<longrightarrow> attempt_error (net' j) \<noteq> None"
      using that by (auto simp: le_nat_iff)
    then show ?thesis
      using loop_all_fail[of 0 n net' b "[]"] that(1) by (simp add: fetchWithRetry_def)
  qed
  have tr: "fetches (failed_rounds b 0 n @ [Fetch n]) = n + 1
      \<and> sleeps (failed_rounds b 0 n @ [Fetch n]) = map (\<lambda>k. b * 2 ^ k) [0..<n]" for b n
    using sleeps_failed_rounds[of b 0 n]
    by (simp add: fetches_append fetches_failed_rounds sleeps_append) (simp add: fetches_def)
  have succ: "fetchWithRetry net retries backoff = (failed_rounds backoff 0 k @ [Fetch k], Inr r)"
    if "int k \<le> retries" "\<forall>j < k. attempt_error (net j) \<noteq> None"
       "net k = Response r" "res_ok r" for k r
    using loop_first_success[of 0 k retries net r backoff "[]"] that
    by (simp add: fetchWithRetry_def)
  have dflt: "fetches (fst (fetchWithRetry_default net)) = 4
          \<and> sleeps (fst (fetchWithRetry_default net)) = [500, 1000, 2000]"
    if "\<forall>k \<le> 3. attempt_error (net k) \<noteq> None"
  proof -
    have "fetchWithRetry net 3 500
          = (failed_rounds 500 0 (nat 3) @ [Fetch (nat 3)],
             Inl (the (attempt_error (net (nat 3)))))"
      by (rule exhaust) (use that in simp_all)
    then show ?thesis using tr[of 500 3]
      by (simp add: fetchWithRetry_default_def upt_rec)
  qed
  show ?thesis
    using bound exhaust[of retries net backoff] tr[of backoff "nat retries"] succ dflt
    by (auto simp: http_error_message_def)
qed

text \<open>Witness for claim C4: the endpoint that always answers 500, default arguments.\<close>

theorem fetch_retry_witness:
  "attempt_error (always_500 0) \<noteq> None \<and> attempt_error (always_500 3) \<noteq> None
   \<and> fetches (fst (fetchWithRetry_default always_500)) = 4
   \<and> sleeps (fst (fetchWithRetry_default always_500)) = [500, 1000, 2000]
   \<and> snd (fetchWithRetry_default always_500) = Inl ''HTTP 500: Internal Server Error''"
proof -
  have h: "\<forall>k \<le> 3. attempt_error (always_500 k) \<noteq> None"
    by (simp add: always_500_def res_ok_def)
  have "fetches (fst (fetchWithRetry_default always_500)) = 4
          \<and> sleeps (fst (fetchWithRetry_default always_500)) = [500, 1000, 2000]"
    using fetch_retry_bounded_with_backoff [of always_500 3 500] h by blast
  moreover have "snd (fetchWithRetry_default always_500) = Inl ''HTTP 500: Internal Server Error''"
    by (simp add: always_500_run)
  ultimately show ?thesis using h by simp
qed

text \<open>
  Counterexample to claim C4 as stated: with the default arguments the endpoint that
  always answers 500 is fetched 4 times, not 3.
\<close>

theorem default_makes_four_attempts_counterexample:
  "fetches (fst (fetchWithRetry_default always_500)) = 4
   \<and> \<not> fetches (fst (fetchWithRetry_default always_500)) \<le> 3"
  by (simp add: always_500_run fetches_def)

section \<open>Properties of deduplication and ordering\<close>

lemma dedupe_ids:
  "set (map t_id (dedupe_from seen ts)) = set (map t_id ts) - set seen
   \<and> distinct (map t_id (dedupe_from seen ts))"
  by (induction seen ts rule: dedupe_from.induct) auto

lemma dedupe_first:
  "t \<in> set (dedupe_from seen ts) \<Longrightarrow> find (\<lambda>u. t_id u = t_id t) ts = Some t"
proof (induction seen ts rule: dedupe_from.induct)
  case (1 seen)
  then show ?case by simp
next
  case (2 seen u ts)
  show ?case
  proof (cases "t_id u \<in> set seen")
    case True
    then have t: "t \<in> set (dedupe_from seen ts)" using 2 by simp
    then have "t_id t \<in> set (map t_id (dedupe_from seen ts))" by simp
    then have "t_id t \<notin> set seen" using dedupe_ids[of seen ts] by auto
    then have "t_id u \<noteq> t_id t" using True by auto
    then show ?thesis using 2 True t by simp
  next
    case False
    show ?thesis
    proof (cases "t = u")
      case True
      then show ?thesis by simp
    next
      case ne: False
      then have t: "t \<in> set (dedupe_from (t_id u # seen) ts)" using 2 False by simp
      then have "t_id t \<in> set (map t_id (dedupe_from (t_id u # seen) ts))" by simp
      then have "t_id t \<noteq> t_id u" using dedupe_ids[of "t_id u # seen" ts] by auto
      then show ?thesis using 2 False t by simp
    qed
  qed
qed

lemma dedupe_subseq: "subseq (dedupe_from seen ts) ts"
  by (induction seen ts rule: dedupe_from.induct) auto

lemma map_of_map_set: "map_of (map_set k v m) = (map_of m)(k \<mapsto> v)"
  by (induction m) (auto simp: fun_eq_iff)

lemma keys_map_set: "fst ` set (map_set k v m) = insert k (fst ` set m)"
  by (induction m) force+

lemma find_app:
  "find P (xs @ ys) = (case find P xs of None \<Rightarrow> find P ys | Some x \<Rightarrow> Some x)"
  by (induction xs) auto

lemma find_Some_mem: "find P xs = Some x \<Longrightarrow> x \<in> set xs"
  by (induction xs) (auto split: if_splits)

lemma distinct_map_set: "distinct (map fst m) \<Longrightarrow> distinct (map fst (map_set k v m))"
  by (induction m) (auto simp: keys_map_set)

lemma distinct_uniqueMap: "distinct (map fst m) \<Longrightarrow> distinct (map fst (uniqueMap_of m ts))"
  by (induction m ts rule: uniqueMap_of.induct) (auto simp: distinct_map_set)

lemma keys_uniqueMap: "fst ` set (uniqueMap_of m ts) = fst ` set m \<union> t_id ` set ts"
  by (induction m ts rule: uniqueMap_of.induct) (auto simp: keys_map_set)

lemma map_of_uniqueMap:
  "map_of (uniqueMap_of m ts) k
     = (case find (\<lambda>t. t_id t = k) (rev ts) of Some t \<Rightarrow> Some t | None \<Rightarrow> map_of m k)"
  by (induction m ts rule: uniqueMap_of.induct)
     (auto simp: map_of_map_set find_app split: option.splits)

text \<open>The sort permutes: whatever the comparator answers, no element is lost or repeated.\<close>

lemma set_sort_insert: "set (sort_insert c x ys) = insert x (set ys)"
  by (induction ys) auto

lemma set_js_sort: "set (js_sort c xs) = set xs"
  by (induction xs) (auto simp: set_sort_insert)

lemma distinct_sort_insert: "distinct (sort_insert c x ys) = (x \<notin> set ys \<and> distinct ys)"
  by (induction ys) (auto simp: set_sort_insert)

lemma distinct_js_sort: "distinct (js_sort c xs) = distinct xs"
  by (induction xs) (auto simp: distinct_sort_insert set_js_sort)

text \<open>
  On trades that all have a time value the comparator is the difference of two keys,
  and the sort is the stable sort by the negated time value.
\<close>

lemma sort_insert_dated:
  assumes "g (t_timestamp x) \<noteq> None" and "\<forall>y \<in> set ys. g (t_timestamp y) \<noteq> None"
  shows "sort_insert (compare_newest g) x ys
           = insort_key (\<lambda>t. - the (g (t_timestamp t))) x ys"
  using assms
  by (induction ys) (auto simp: sort_compare_def compare_newest_def)

lemma js_sort_dated:
  assumes "\<forall>y \<in> set xs. g (t_timestamp y) \<noteq> None"
  shows "js_sort (compare_newest g) xs = sort_key (\<lambda>t. - the (g (t_timestamp t))) xs"
  using assms
proof (induction xs)
  case Nil
  then show ?case by simp
next
  case (Cons x xs)
  then have ih: "js_sort (compare_newest g) xs = sort_key (\<lambda>t. - the (g (t_timestamp t))) xs"
    by simp
  have "\<forall>y \<in> set (js_sort (compare_newest g) xs). g (t_timestamp y) \<noteq> None"
    using Cons.prems by (simp add: set_js_sort)
  then have "sort_insert (compare_newest g) x (js_sort (compare_newest g) xs)
      = insort_key (\<lambda>t. - the (g (t_timestamp t))) x (js_sort (compare_newest g) xs)"
    using Cons.prems by (intro sort_insert_dated) simp_all
  then show ?case using ih by simp
qed

lemma times_of_dated:
  "\<forall>y \<in> set ys. g (t_timestamp y) \<noteq> None
     \<Longrightarrow> times_of g ys = map (\<lambda>t. the (g (t_timestamp t))) ys"
  by (induction ys) auto

lemma sorted_negated:
  "sorted (map (\<lambda>t. - k t) ys) \<Longrightarrow> sorted (rev (map (k :: 'a \<Rightarrow> int) ys))"
  by (induction ys) (auto simp: sorted_append)

lemma fetchTrades_set:
  "set (fetchTrades_sorted g ts) = set (map snd (uniqueMap_of [] ts))"
  by (simp add: fetchTrades_sorted_def set_js_sort)

lemma fetchTrades_member:
  assumes "t \<in> set (fetchTrades_sorted g ts)"
  shows "last_with_id (t_id t) ts = Some t"
proof -
  let ?m = "uniqueMap_of [] ts"
  have "t \<in> set (map snd ?m)" using assms by (simp only: fetchTrades_set)
  then obtain k where k: "(k, t) \<in> set ?m" by auto
  have d: "distinct (map fst ?m)" by (rule distinct_uniqueMap) simp
  have "map_of ?m k = Some t" using k d by simp
  then have f: "find (\<lambda>u. t_id u = k) (rev ts) = Some t"
    by (simp add: map_of_uniqueMap split: option.splits)
  then have "t_id t = k" by (auto simp: find_Some_iff)
  then show ?thesis using f by (simp add: last_with_id_def)
qed

lemma fetchTrades_subset: "set (fetchTrades_sorted g ts) \<subseteq> set ts"
proof
  fix t
  assume "t \<in> set (fetchTrades_sorted g ts)"
  then have "find (\<lambda>u. t_id u = t_id t) (rev ts) = Some t"
    using fetchTrades_member by (simp add: last_with_id_def)
  then have "t \<in> set (rev ts)" by (rule find_Some_mem)
  then show "t \<in> set ts" by simp
qed

lemma fetchTrades_ids:
  "set (map t_id (fetchTrades_sorted g ts)) = set (map t_id ts)
   \<and> distinct (map t_id (fetchTrades_sorted g ts))"
proof -
  let ?m = "uniqueMap_of [] ts"
  have d: "distinct (map fst ?m)" by (rule distinct_uniqueMap) simp
  have key: "t_id v = k" if "(k, v) \<in> set ?m" for k v
  proof -
    have "map_of ?m k = Some v" using that d by simp
    then have "find (\<lambda>u. t_id u = k) (rev ts) = Some v"
      by (simp add: map_of_uniqueMap split: option.splits)
    then show ?thesis by (auto simp: find_Some_iff)
  qed
  have eq: "map t_id (map snd ?m) = map fst ?m"
    using key by (auto simp: list_eq_iff_nth_eq)
  have s: "set (map t_id (map snd ?m)) = set (map t_id ts)"
    unfolding eq using keys_uniqueMap[of "[]" ts] by simp
  have dd: "distinct (map t_id (map snd ?m))" unfolding eq by (rule d)
  have st: "set (fetchTrades_sorted g ts) = set (map snd ?m)"
    by (rule fetchTrades_set)
  have "distinct (map snd ?m) \<and> inj_on t_id (set (map snd ?m))"
    using dd by (simp only: distinct_map)
  then have "distinct (fetchTrades_sorted g ts) \<and> inj_on t_id (set (fetchTrades_sorted g ts))"
    unfolding st by (simp add: fetchTrades_sorted_def distinct_js_sort)
  then have "distinct (map t_id (fetchTrades_sorted g ts))"
    by (simp only: distinct_map)
  moreover have "set (map t_id (fetchTrades_sorted g ts)) = set (map t_id (map snd ?m))"
    using st by (simp only: set_map)
  ultimately show ?thesis using s by simp
qed

lemma fetchTrades_newest_first:
  assumes "all_dated g ts"
  shows "newest_first g (fetchTrades_sorted g ts)"
proof -
  let ?vs = "map snd (uniqueMap_of [] ts)"
  have all: "\<forall>t \<in> set ts. g (t_timestamp t) \<noteq> None"
    using assms by (simp add: all_dated_def list_all_iff)
  have "set ?vs \<subseteq> set ts"
    using fetchTrades_subset[of g ts] by (simp only: fetchTrades_set)
  then have vs: "\<forall>t \<in> set ?vs. g (t_timestamp t) \<noteq> None" using all by blast
  have e: "fetchTrades_sorted g ts = sort_key (\<lambda>t. - the (g (t_timestamp t))) ?vs"
    unfolding fetchTrades_sorted_def using vs by (rule js_sort_dated)
  have "\<forall>t \<in> set (fetchTrades_sorted g ts). g (t_timestamp t) \<noteq> None"
    using all fetchTrades_subset[of g ts] by blast
  then have tm: "times_of g (fetchTrades_sorted g ts)
      = map (\<lambda>t. the (g (t_timestamp t))) (fetchTrades_sorted g ts)"
    by (rule times_of_dated)
  have "sorted (map (\<lambda>t. - the (g (t_timestamp t))) (fetchTrades_sorted g ts))"
    unfolding e by simp
  then have "sorted (rev (map (\<lambda>t. the (g (t_timestamp t))) (fetchTrades_sorted g ts)))"
    by (rule sorted_negated)
  then show ?thesis by (simp add: newest_first_def tm)
qed

text \<open>
  Claim C7, as the code has it. \<^verbatim>\<open>getMasterTrades\<close> returns the mapped trades with distinct
  identifiers, every identifier of the batch kept, each kept trade the first of the
  batch with its identifier, in the order of the batch. \<^verbatim>\<open>fetchTrades\<close> returns trades with
  distinct identifiers, every identifier kept, each kept trade the last of the batch
  with its identifier; when every timestamp of the batch has a time value, they come
  newest first.
\<close>

theorem dedupe_and_order_as_implemented:
  "distinct (map t_id (getMasterTrades_deduped ts))
   \<and> set (map t_id (getMasterTrades_deduped ts)) = set (map t_id ts)
   \<and> (\<forall>t \<in> set (getMasterTrades_deduped ts). first_with_id (t_id t) ts = Some t)
   \<and> subseq (getMasterTrades_deduped ts) ts
   \<and> distinct (map t_id (fetchTrades_sorted getTime ts))
   \<and> set (map t_id (fetchTrades_sorted getTime ts)) = set (map t_id ts)
   \<and> (\<forall>t \<in> set (fetchTrades_sorted getTime ts). last_with_id (t_id t) ts = Some t)
   \<and> (all_dated getTime ts \<longrightarrow> newest_first getTime (fetchTrades_sorted getTime ts))"
proof -
  have a: "distinct (map t_id (getMasterTrades_deduped ts))
      \<and> set (map t_id (getMasterTrades_deduped ts)) = set (map t_id ts)"
    using dedupe_ids[of "[]" ts] by (simp add: getMasterTrades_deduped_def)
  have b: "\<forall>t \<in> set (getMasterTrades_deduped ts). first_with_id (t_id t) ts = Some t"
    using dedupe_first[of _ "[]" ts] by (simp add: getMasterTrades_deduped_def first_with_id_def)
  have c: "subseq (getMasterTrades_deduped ts) ts"
    by (simp add: getMasterTrades_deduped_def dedupe_subseq)
  have d: "all_dated getTime ts \<longrightarrow> newest_first getTime (fetchTrades_sorted getTime ts)"
    using fetchTrades_newest_first by blast
  show ?thesis
    using a b c d fetchTrades_ids[of getTime ts] fetchTrades_member[of _ getTime ts] by blast
qed

text \<open>Witness for claim C7: a batch of three trades, the third repeating the first's identifier.\<close>

theorem dedupe_and_order_witness:
  "getMasterTrades_deduped [ex_older, ex_newer, ex_repeat] = [ex_older, ex_newer]
   \<and> fetchTrades_sorted iso_getTime [ex_older, ex_newer, ex_repeat] = [ex_newer, ex_repeat]
   \<and> first_with_id ''A1'' [ex_older, ex_newer, ex_repeat] = Some ex_older
   \<and> last_with_id ''A1'' [ex_older, ex_newer, ex_repeat] = Some ex_repeat
   \<and> subseq (getMasterTrades_deduped [ex_older, ex_newer, ex_repeat]) [ex_older, ex_newer, ex_repeat]
   \<and> all_dated iso_getTime [ex_older, ex_newer, ex_repeat]
   \<and> newest_first iso_getTime (fetchTrades_sorted iso_getTime [ex_older, ex_newer, ex_repeat])"
proof -
  note t = dedupe_and_order_as_implemented [of "[ex_older, ex_newer, ex_repeat]" iso_getTime]
  have e1: "getMasterTrades_deduped [ex_older, ex_newer, ex_repeat] = [ex_older, ex_newer]"
    by code_simp
  have e2: "fetchTrades_sorted iso_getTime [ex_older, ex_newer, ex_repeat] = [ex_newer, ex_repeat]"
    by code_simp
  have e3: "first_with_id ''A1'' [ex_older, ex_newer, ex_repeat] = Some ex_older"
    by code_simp
  have e4: "last_with_id ''A1'' [ex_older, ex_newer, ex_repeat] = Some ex_repeat"
    by code_simp
  have e5: "all_dated iso_getTime [ex_older, ex_newer, ex_repeat]"
    by code_simp
  show ?thesis using t e1 e2 e3 e4 e5 by simp
qed

text \<open>
  Counterexample to claim C7 as stated: \<^verbatim>\<open>getMasterTrades\<close> returns an older trade before a
  newer one; \<^verbatim>\<open>fetchTrades\<close> keeps the second of two records with one identifier; and on a
  batch holding a record whose timestamp is no date, \<^verbatim>\<open>fetchTrades\<close> leaves the older trade
  before the newer one.
\<close>

theorem neither_path_dedupes_first_and_sorts_counterexample:
  "getMasterTrades_deduped [ex_older, ex_newer] = [ex_older, ex_newer]
   \<and> \<not> newest_first iso_getTime (getMasterTrades_deduped [ex_older, ex_newer])
   \<and> fetchTrades_sorted iso_getTime [ex_older, ex_repeat] = [ex_repeat]
   \<and> first_with_id ''A1'' [ex_older, ex_repeat] = Some ex_older
   \<and> ex_older \<noteq> ex_repeat
   \<and> fetchTrades_sorted iso_getTime [ex_older, ex_undated, ex_newer]
       = [ex_older, ex_undated, ex_newer]
   \<and> \<not> newest_first iso_getTime (fetchTrades_sorted iso_getTime [ex_older, ex_undated, ex_newer])"
  by code_simp

section \<open>Properties of the timestamp normalizer\<close>

lemma epoch_iso: "toISOString 0 = epoch_sentinel"
  by code_simp

lemma elements_total:
  assumes "\<forall>x \<in> set xs. stringable x \<longrightarrow> x \<noteq> JUndefined \<longrightarrow> x \<noteq> JNull
             \<longrightarrow> (\<exists>s. js_toString h x = Inr s)"
      and "list_all stringable xs"
  shows "\<exists>ss. js_elements h xs = Inr ss"
  using assms
proof (induction xs)
  case Nil
  then show ?case by simp
next
  case (Cons x xs)
  then obtain ss where ss: "js_elements h xs = Inr ss" by auto
  have "\<exists>s. (if x = JUndefined \<or> x = JNull then Inr [] else js_toString h x) = Inr s"
    using Cons.prems by (cases "x = JUndefined \<or> x = JNull") auto
  then show ?case using ss by auto
qed

lemma toString_total:
  "stringable v \<Longrightarrow> v \<noteq> JUndefined \<Longrightarrow> v \<noteq> JNull \<Longrightarrow> \<exists>s. js_toString h v = Inr s"
proof (induction v)
  case (JArr xs)
  have "\<exists>ss. js_elements h xs = Inr ss"
    by (rule elements_total) (use JArr in auto)
  then show ?case by auto
qed auto

lemma scan_total:
  "\<forall>k \<in> set ks. stringable (get_prop d k) \<Longrightarrow> \<exists>r. scan_candidates h d ks = Inr r"
proof (induction ks)
  case Nil
  then show ?case by simp
next
  case (Cons k ks)
  then obtain r where r: "scan_candidates h d ks = Inr r" by auto
  have "get_prop d k = JNull \<or> get_prop d k = JUndefined
        \<or> (\<exists>s. js_toString h (get_prop d k) = Inr s)"
    using toString_total[of "get_prop d k" h] Cons.prems by auto
  then show ?case using r by (auto simp: Let_def split: option.splits)
qed

lemma scan_none_parses:
  assumes "\<forall>k \<in> set ks. stringable (get_prop d k)"
      and "\<forall>k \<in> set ks. \<not> candidate_parses h (get_prop d k)"
  shows "scan_candidates h d ks = Inr None"
  using assms
proof (induction ks)
  case Nil
  then show ?case by simp
next
  case (Cons k ks)
  then have rest: "scan_candidates h d ks = Inr None" by simp
  have np: "\<not> candidate_parses h (get_prop d k)" using Cons.prems by simp
  have "get_prop d k = JNull \<or> get_prop d k = JUndefined
        \<or> (\<exists>s. js_toString h (get_prop d k) = Inr s)"
    using toString_total[of "get_prop d k" h] Cons.prems by auto
  then show ?case using rest np
    by (auto simp: candidate_parses_def Let_def split: option.splits)
qed

text \<open>
  Claim C2, as the code has it. When every candidate value of the record can be turned
  into a string and no candidate field parses, the result is the fallback if one is
  given (and is not the empty string), and the epoch string 1970-01-01T00:00:00.000Z
  otherwise; the host's clock has no part in it.
\<close>

theorem unparsed_record_gives_fallback_or_epoch:
  assumes "all_stringable d" and "no_candidate_parses h d"
  shows "(\<forall>f. fallbackTime = Some f \<and> f \<noteq> [] \<longrightarrow> parseTradeTimestamp h d fallbackTime = Inr f)
       \<and> (fallbackTime = None \<or> fallbackTime = Some [] \<longrightarrow>
            parseTradeTimestamp h d fallbackTime = Inr ''1970-01-01T00:00:00.000Z'')"
proof -
  have "scan_candidates h d candidate_keys = Inr None"
    using assms
    by (intro scan_none_parses) (simp_all add: all_stringable_def no_candidate_parses_def list_all_iff)
  then show ?thesis
    using epoch_iso by (auto simp: parseTradeTimestamp_def epoch_sentinel_def)
qed

text \<open>Witness for claim C2: a record whose only time field holds no time.\<close>

theorem unparsed_record_witness:
  "all_stringable [(''FillTime'', JStr ''not a time'')]
   \<and> no_candidate_parses ex_host_utc [(''FillTime'', JStr ''not a time'')]
   \<and> parseTradeTimestamp ex_host_utc [(''FillTime'', JStr ''not a time'')] (Some ''2024-02-10T11:50:45.000Z'')
        = Inr ''2024-02-10T11:50:45.000Z''
   \<and> parseTradeTimestamp ex_host_utc [(''FillTime'', JStr ''not a time'')] None
        = Inr ''1970-01-01T00:00:00.000Z''"
proof -
  have s: "all_stringable [(''FillTime'', JStr ''not a time'')]"
    by code_simp
  have n: "no_candidate_parses ex_host_utc [(''FillTime'', JStr ''not a time'')]"
    by code_simp
  note t = unparsed_record_gives_fallback_or_epoch [OF s n]
  have a: "parseTradeTimestamp ex_host_utc [(''FillTime'', JStr ''not a time'')] (Some ''2024-02-10T11:50:45.000Z'')
        = Inr ''2024-02-10T11:50:45.000Z''"
    using t[of "Some ''2024-02-10T11:50:45.000Z''"] by simp
  have b: "parseTradeTimestamp ex_host_utc [(''FillTime'', JStr ''not a time'')] None
        = Inr ''1970-01-01T00:00:00.000Z''"
    using t[of None] by simp
  show ?thesis using s n a b by blast
qed

text \<open>
  Counterexample to claim C2 as stated: the only time field of the record holds an
  array with an object that has a property named toString. No candidate field parses,
  a fallback is given, and the call ends in the exception of line 70 instead of
  returning the fallback.
\<close>

theorem unparsed_record_throws_counterexample:
  "no_candidate_parses ex_host_utc [(''timestamp'', JArr [JObj [(''toString'', JNull)]])]
   \<and> parseTradeTimestamp ex_host_utc [(''timestamp'', JArr [JObj [(''toString'', JNull)]])]
        (Some ''2024-02-10T11:50:45.000Z'')
       = Inl (TypeError ''toString is not a function'')"
  by code_simp

text \<open>
  Claim C10, as the code has it. On every host, for every record whose candidate values
  can be turned into strings, and for every fallback, the function returns a string.
\<close>

theorem normalizer_total_on_stringable_values:
  assumes "\<forall>k \<in> set candidate_keys. stringable (get_prop d k)"
  shows "\<exists>s. parseTradeTimestamp h d fallbackTime = Inr s"
proof -
  obtain r where "scan_candidates h d candidate_keys = Inr r"
    using scan_total[OF assms] by blast
  then show ?thesis
    by (cases r) (auto simp: parseTradeTimestamp_def)
qed

text \<open>
  Witness for claim C10: a record whose timestamp field is the array \<^verbatim>\<open>[null, true]\<close>, of
  string form \<^verbatim>\<open>,true\<close>.
\<close>

theorem normalizer_total_witness:
  "stringable (get_prop [(''timestamp'', JArr [JNull, JBool True])] ''timestamp'')
   \<and> (\<exists>s. parseTradeTimestamp ex_host_utc [(''timestamp'', JArr [JNull, JBool True])] None = Inr s)
   \<and> parseTradeTimestamp ex_host_utc [(''timestamp'', JArr [JNull, JBool True])] None
        = Inr ''1970-01-01T00:00:00.000Z''"
proof -
  have h: "\<forall>k \<in> set candidate_keys.
             stringable (get_prop [(''timestamp'', JArr [JNull, JBool True])] k)"
    by code_simp
  have k: "''timestamp'' \<in> set candidate_keys" by (simp add: candidate_keys_def)
  note t = normalizer_total_on_stringable_values [OF h, of ex_host_utc None]
  have e: "parseTradeTimestamp ex_host_utc [(''timestamp'', JArr [JNull, JBool True])] None
        = Inr ''1970-01-01T00:00:00.000Z''"
    by code_simp
  show ?thesis using h k t e by blast
qed

text \<open>
  Counterexample to claim C10 as stated: a candidate value that is an object with a
  property named toString makes line 70 throw, outside every \<^verbatim>\<open>try\<close>.
\<close>

theorem normalizer_throws_counterexample:
  "parseTradeTimestamp ex_host_utc [(''FillTime'', JObj [(''toString'', JNum 1)])]
     (Some ''2024-02-10T11:50:45.000Z'')
   = Inl (TypeError ''toString is not a function'')"
  by code_simp

text \<open>
  Claim C8. The value 2024-02-10 14:30:45 in FillTime gives 2024-02-10T09:00:45.000Z on
  a host whose local zone is UTC, and 2024-02-10T03:30:45.000Z on a host whose local
  zone is UTC+5:30: the date is built in the host's zone before 5:30 is subtracted.
\<close>

theorem ist_pattern_uses_host_zone:
  "parseTradeTimestamp ex_host_ist [(''FillTime'', JStr ''2024-02-10 14:30:45'')] None
     = Inr ''2024-02-10T03:30:45.000Z''
   \<and> parseTradeTimestamp ex_host_utc [(''FillTime'', JStr ''2024-02-10 14:30:45'')] None
     = Inr ''2024-02-10T09:00:45.000Z''"
  by code_simp

end

